theory Spec2Isabelle
  imports Main "HOL-Library.AList"
begin

section \<open>JavaScript values\<close>

text \<open>
  The scripts exchange JSON payloads with the backend and keep plain objects in maps
  and in the browser's storage. A value is one of the JSON shapes or \<open>undefined\<close>.
  Numbers are modelled as integers (percentages and step numbers); an object is the
  list of its properties in insertion order, read with the first binding of a key.
\<close>

datatype jsval =
    JUndefined
  | JNull
  | JBool bool
  | JNum int
  | JStr string
  | JArr "jsval list"
  | JObj "(string \<times> jsval) list"

type_synonym jsobj = "(string \<times> jsval) list"

text \<open>Truthiness, as tested by \<open>if (v)\<close>, \<open>!v\<close>, \<open>a || b\<close> and \<open>a && b\<close>.\<close>

fun truthy :: "jsval \<Rightarrow> bool" where
  "truthy JUndefined = False"
| "truthy JNull = False"
| "truthy (JBool b) = b"
| "truthy (JNum n) = (n \<noteq> 0)"
| "truthy (JStr s) = (s \<noteq> [])"
| "truthy (JArr vs) = True"
| "truthy (JObj kvs) = True"

text \<open>\<open>obj.k\<close> on an object literal: a missing property reads as \<open>undefined\<close>.\<close>

definition field_of :: "jsobj \<Rightarrow> string \<Rightarrow> jsval" where
  "field_of obj k = (case map_of obj k of None \<Rightarrow> JUndefined | Some v \<Rightarrow> v)"

text \<open>
  \<open>v.k\<close> on an arbitrary value: reading a property of \<open>undefined\<close> or \<open>null\<close>
  throws a TypeError (\<open>None\<close>); primitives and arrays have none of the properties the
  scripts ask for.
\<close>

fun prop_of :: "jsval \<Rightarrow> string \<Rightarrow> jsval option" where
  "prop_of JUndefined k = None"
| "prop_of JNull k = None"
| "prop_of (JObj kvs) k = Some (field_of kvs k)"
| "prop_of (JBool b) k = Some JUndefined"
| "prop_of (JNum n) k = Some JUndefined"
| "prop_of (JStr s) k = Some JUndefined"
| "prop_of (JArr vs) k = Some JUndefined"

text \<open>\<open>a || b\<close>\<close>

definition js_or :: "jsval \<Rightarrow> jsval \<Rightarrow> jsval" where
  "js_or a b = (if truthy a then a else b)"

text \<open>
  \<open>{...obj, k: v}\<close>: an existing property keeps its place and takes the new value, a new
  one is appended.
\<close>

definition set_field :: "jsobj \<Rightarrow> string \<Rightarrow> jsval \<Rightarrow> jsobj" where
  "set_field obj k v = AList.update k v obj"

section \<open>Step gate (session manager script)\<close>

text \<open>
  \<^verbatim>\<open>
  function canContinueFromStep(step, completedSteps) {
      if (step === 1) return true;
      if (step === 2) return completedSteps.includes(1);
      if (step === 3) return completedSteps.includes(1) && completedSteps.includes(2);
      return false;
  }
  \<close>
  Every caller passes \<open>completed_steps || []\<close>, an array of step numbers.
\<close>

definition array_includes :: "int list \<Rightarrow> int \<Rightarrow> bool" where
  "array_includes xs x = (x \<in> set xs)"

definition canContinueFromStep :: "int \<Rightarrow> int list \<Rightarrow> bool" where
  "canContinueFromStep step completedSteps =
     (if step = 1 then True
      else if step = 2 then array_includes completedSteps 1
      else if step = 3 then array_includes completedSteps 1 \<and> array_includes completedSteps 2
      else False)"

section \<open>Browser session identifier (main and upload scripts)\<close>

text \<open>
  \<^verbatim>\<open>
  function getSessionId() {
      let sessionId = sessionStorage.getItem('arqv30_session_id');
      if (!sessionId) {
          sessionId = `session_${Date.now()}_${Math.random().toString(36).substr(2, 9)}`;
          sessionStorage.setItem('arqv30_session_id', sessionId);
      }
      return sessionId;
  }
  \<close>
  The storage maps keys to strings; the clock reading and the random suffix are inputs
  (\<open>now\<close>, \<open>rnd\<close>, already rendered as text). The result is the returned id and the
  storage after the call.
\<close>

type_synonym storage = "string \<rightharpoonup> string"

definition newSessionId :: "string \<Rightarrow> string \<Rightarrow> string" where
  "newSessionId now rnd = ''session_'' @ now @ ''_'' @ rnd"

definition getSessionId :: "storage \<Rightarrow> string \<Rightarrow> string \<Rightarrow> string \<times> storage" where
  "getSessionId sessionStorage now rnd =
     (case sessionStorage ''arqv30_session_id'' of
        None \<Rightarrow>
          (newSessionId now rnd,
           sessionStorage(''arqv30_session_id'' \<mapsto> newSessionId now rnd))
      | Some sessionId \<Rightarrow>
          if sessionId = [] then
            (newSessionId now rnd,
             sessionStorage(''arqv30_session_id'' \<mapsto> newSessionId now rnd))
          else (sessionId, sessionStorage))"

section \<open>The page: browser environment and script state (analysis script)\<close>

text \<open>
  The analysis script keeps its state in module variables (\<open>currentAnalysisId\<close>,
  \<open>isAnalysisRunning\<close>, \<open>savedSessions\<close>, \<open>autoSaveInterval\<close>), in the fields of the
  single \<open>ModernAnalysisSystem\<close> instance (\<open>currentSessionId\<close>, \<open>progressInterval\<close>,
  \<open>sessions\<close>, \<open>isPaused\<close>) and in the browser: two \<open>localStorage\<close> entries, the table
  of live interval timers, the pending \<open>setTimeout(pollProgress, 3000)\<close> calls and the
  analysis form. Everything the user or the network can observe is appended to a trace.

  Conventions of the model:
  \<^item> an \<open>async\<close> function runs from its call to its end in one step; the answers to its
    network requests are arguments (\<open>http\<close>), in the order the requests are made, and so
    are the answers to \<open>confirm\<close> dialogs and the clock readings;
  \<^item> \<open>setInterval\<close> returns a positive handle, so a stored handle is truthy: a handle
    field is \<open>None\<close> for \<open>null\<close> and \<open>Some h\<close> otherwise;
  \<^item> the \<open>arqv30_analyses\<close> entry is represented by the registry its JSON text encodes
    (\<open>JSON.stringify\<close> leaves out properties whose value is \<open>undefined\<close>), and
    writes to \<open>localStorage\<close> succeed;
  \<^item> the page contains the input elements the script writes to, named as their ids;
  \<^item> notification texts are represented by one constructor per message of the source;
    \<open>console.error\<close> and \<open>console.warn\<close> are traced, \<open>console.log\<close> is not.
\<close>

datatype severity = Info | Success | Warning | Error

datatype message =
    MsgAnalysisCompleted
  | MsgPollError jsval
  | MsgRestoredRunning
  | MsgFoundPaused
  | MsgLastCompleted
  | MsgLastError
  | MsgContinued
  | MsgContinueFailed
  | MsgLoadSessionsFailed
  | MsgDeleted
  | MsgDeleteFailed
  | MsgSessionNotFound
  | MsgStatusCheckFailed
  | MsgMonitorFailed
  | MsgAnalysisDeleted

text \<open>
  The messages, in the order of the constructors: \<^verbatim>\<open>Analise concluida com sucesso!\<close>,
  \<^verbatim>\<open>Erro: ${data.error}\<close>, \<^verbatim>\<open>Sessao anterior restaurada e em execucao\<close>,
  \<^verbatim>\<open>Sessao anterior encontrada (pausada)\<close>, \<^verbatim>\<open>Ultima sessao foi concluida\<close>,
  \<^verbatim>\<open>Ultima sessao teve erro\<close>, \<^verbatim>\<open>Sessao continuada com sucesso\<close>,
  \<^verbatim>\<open>Erro ao continuar: ...\<close>, \<^verbatim>\<open>Erro ao carregar sessoes salvas\<close>,
  \<^verbatim>\<open>Sessao excluida com sucesso\<close>, \<^verbatim>\<open>Erro ao excluir: ...\<close>,
  \<^verbatim>\<open>Sessao nao encontrada\<close>, \<^verbatim>\<open>Erro ao verificar status da analise: ...\<close>,
  \<^verbatim>\<open>Erro ao monitorar progresso: ...\<close>, \<^verbatim>\<open>Analise excluida com sucesso\<close>
  (accents left out).

  The events: a request with its method and path; a notification of
  \<open>ModernAnalysisSystem.showNotification\<close>; an \<open>Alert\<close> for a call of the global
  \<open>showAlert\<close>, which hands the message to \<open>showNotification\<close> when
  \<open>window.analysisSystem\<close> is set and to \<open>console.warn\<close> otherwise; the two console
  levels; and one event per display update the scripts make.
\<close>

datatype event =
    Fetch string string
  | Notify severity message
  | Alert severity message
  | ConsoleError
  | ConsoleWarn
  | ShowProgress bool
  | UpdateProgress jsval jsval jsval jsval
  | UpdateSessionControls string
  | RenderSessionsList
  | RenderEmptySessionsList
  | UpdateSessionsList
  | ShowResults jsval
  | UpdateProgressUI jsval jsval
  | RestoreFormData
  | ConfirmDialog

datatype timer_kind = ProgressTimer | AutoSaveTimer

text \<open>
  The outcome of \<open>await fetch(url)\<close> followed by \<open>await response.json()\<close>: the request
  fails (\<open>NetworkError\<close>), or a response arrives with its \<open>ok\<close> flag and its body, which
  is \<open>None\<close> when the body is not JSON.
\<close>

datatype http = NetworkError | Response bool "jsval option"

record page =
  currentAnalysisId :: "string option"
  isAnalysisRunning :: bool
  savedSessions :: "string \<rightharpoonup> jsobj"
  autoSaveInterval :: "nat option"
  currentSessionId :: "string option"
  progressInterval :: "nat option"
  sessions :: "(jsval \<times> jsval) list"
  isPaused :: bool
  ls_currentSessionId :: "string option"
  ls_arqv30_analyses :: "(string \<rightharpoonup> jsobj) option"
  intervals :: "(nat \<times> timer_kind) list"
  next_handle :: nat
  poll_timeouts :: nat
  formData :: jsobj
  dom_progress_text :: bool
  logger_defined :: bool
  trace :: "event list"

text \<open>The page as the script finds it when it is loaded with empty storage.\<close>

definition initial_page :: page where
  "initial_page =
     \<lparr> currentAnalysisId = None, isAnalysisRunning = False, savedSessions = Map.empty,
       autoSaveInterval = None, currentSessionId = None, progressInterval = None,
       sessions = [], isPaused = False, ls_currentSessionId = None,
       ls_arqv30_analyses = None, intervals = [], next_handle = 0, poll_timeouts = 0,
       formData = [], dom_progress_text = True, logger_defined = False, trace = [] \<rparr>"

definition emit :: "event \<Rightarrow> page \<Rightarrow> page" where
  "emit e st = st\<lparr>trace := trace st @ [e]\<rparr>"

text \<open>\<open>if (id)\<close> on \<open>null\<close> or a string.\<close>

definition truthy_id :: "string option \<Rightarrow> bool" where
  "truthy_id i = (case i of None \<Rightarrow> False | Some s \<Rightarrow> s \<noteq> [])"

text \<open>An id spliced into a template string.\<close>

definition id_text :: "string option \<Rightarrow> string" where
  "id_text i = (case i of None \<Rightarrow> ''null'' | Some s \<Rightarrow> s)"

text \<open>The request paths built from a session id.\<close>

definition api_progress :: "string \<Rightarrow> string" where
  "api_progress i = ''/api/progress/'' @ i"

definition api_session :: "string \<Rightarrow> string" where
  "api_session i = ''/api/sessions/'' @ i"

definition api_session_continue :: "string \<Rightarrow> string" where
  "api_session_continue i = ''/api/sessions/'' @ i @ ''/continue''"

definition api_session_status :: "string \<Rightarrow> string" where
  "api_session_status i = ''/api/sessions/'' @ i @ ''/status''"

definition api_analysis_status :: "string \<Rightarrow> string" where
  "api_analysis_status i = ''/api/analysis_status/'' @ i"

definition json_of :: "http \<Rightarrow> jsval option" where
  "json_of r = (case r of NetworkError \<Rightarrow> None | Response ok body \<Rightarrow> body)"

text \<open>A further property of a value that has already been read from without a throw.\<close>

definition get_prop :: "jsval \<Rightarrow> string \<Rightarrow> jsval" where
  "get_prop v k = (case prop_of v k of None \<Rightarrow> JUndefined | Some x \<Rightarrow> x)"

definition setInterval :: "timer_kind \<Rightarrow> page \<Rightarrow> nat \<times> page" where
  "setInterval kind st =
     (next_handle st,
      st\<lparr>intervals := intervals st @ [(next_handle st, kind)],
         next_handle := Suc (next_handle st)\<rparr>)"

definition clearInterval :: "nat \<Rightarrow> page \<Rightarrow> page" where
  "clearInterval h st = st\<lparr>intervals := filter (\<lambda>t. fst t \<noteq> h) (intervals st)\<rparr>"

subsection \<open>AnalysisPersistence\<close>

definition to_json :: "jsobj \<Rightarrow> jsobj" where
  "to_json obj = filter (\<lambda>kv. snd kv \<noteq> JUndefined) obj"

definition updateSessionsList :: "page \<Rightarrow> page" where
  "updateSessionsList st = emit UpdateSessionsList st"

text \<open>
  \<^verbatim>\<open>
  saveSessions() {
      try {
          const sessionsObj = Object.fromEntries(savedSessions);
          localStorage.setItem(this.storageKey, JSON.stringify(sessionsObj));
      } catch (error) { console.error(...); }
  }
  \<close>
\<close>

definition saveSessions :: "page \<Rightarrow> page" where
  "saveSessions st =
     st\<lparr>ls_arqv30_analyses := Some (\<lambda>k. map_option to_json (savedSessions st k))\<rparr>"

text \<open>
  \<^verbatim>\<open>
  saveSession(sessionId, data) {
      savedSessions.set(sessionId, {
          ...data,
          lastSaved: new Date().toISOString(),
          progress: data.progress || 0
      });
      this.saveSessions();
      this.updateSessionsList();
  }
  \<close>
\<close>

definition persistence_saveSession :: "string \<Rightarrow> jsobj \<Rightarrow> string \<Rightarrow> page \<Rightarrow> page" where
  "persistence_saveSession sessionId data now st =
     updateSessionsList (saveSessions
       (st\<lparr>savedSessions := (savedSessions st)
             (sessionId \<mapsto>
                set_field (set_field data ''lastSaved'' (JStr now))
                  ''progress'' (js_or (field_of data ''progress'') (JNum 0)))\<rparr>))"

definition getSession :: "page \<Rightarrow> string \<Rightarrow> jsobj option" where
  "getSession st sessionId = savedSessions st sessionId"

text \<open>
  \<^verbatim>\<open>
  deleteSession(sessionId) {
      savedSessions.delete(sessionId);
      this.saveSessions();
      this.updateSessionsList();
  }
  \<close>
\<close>

definition persistence_deleteSession :: "string \<Rightarrow> page \<Rightarrow> page" where
  "persistence_deleteSession sessionId st =
     updateSessionsList (saveSessions
       (st\<lparr>savedSessions := (savedSessions st)(sessionId := None)\<rparr>))"

subsection \<open>ModernAnalysisSystem\<close>

definition showNotification :: "message \<Rightarrow> severity \<Rightarrow> page \<Rightarrow> page" where
  "showNotification msg sev st = emit (Notify sev msg) st"

definition showProgress :: "bool \<Rightarrow> page \<Rightarrow> page" where
  "showProgress b st = emit (ShowProgress b) st"

text \<open>
  \<open>updateProgress(percentage, message, totalSteps = 13, estimatedTime = '')\<close>: a default
  replaces an argument that is \<open>undefined\<close>.
\<close>

definition default_arg :: "jsval \<Rightarrow> jsval \<Rightarrow> jsval" where
  "default_arg v d = (if v = JUndefined then d else v)"

definition updateProgress :: "jsval \<Rightarrow> jsval \<Rightarrow> jsval \<Rightarrow> jsval \<Rightarrow> page \<Rightarrow> page" where
  "updateProgress percentage msg totalSteps estimatedTime st =
     emit (UpdateProgress percentage msg (default_arg totalSteps (JNum 13))
             (default_arg estimatedTime (JStr []))) st"

definition updateSessionControls :: "string \<Rightarrow> page \<Rightarrow> page" where
  "updateSessionControls status st = emit (UpdateSessionControls status) st"

definition renderEmptySessionsList :: "page \<Rightarrow> page" where
  "renderEmptySessionsList st = emit RenderEmptySessionsList st"

definition renderSessionsList :: "page \<Rightarrow> page" where
  "renderSessionsList st =
     (if sessions st = [] then renderEmptySessionsList st else emit RenderSessionsList st)"

definition restoreFormData :: "page \<Rightarrow> page" where
  "restoreFormData st = emit RestoreFormData st"

text \<open>
  \<^verbatim>\<open>
  stopProgressMonitoring() {
      if (this.progressInterval) {
          clearInterval(this.progressInterval);
          this.progressInterval = null;
      }
  }
  \<close>
\<close>

definition stopProgressMonitoring :: "page \<Rightarrow> page" where
  "stopProgressMonitoring st =
     (case progressInterval st of
        None \<Rightarrow> st
      | Some h \<Rightarrow> (clearInterval h st)\<lparr>progressInterval := None\<rparr>)"

text \<open>
  \<^verbatim>\<open>
  startProgressMonitoring() {
      if (!this.currentSessionId) return;
      this.progressInterval = setInterval(async () => { ... }, 3000);
  }
  \<close>
  The callback is \<open>progressTick\<close> below.
\<close>

definition startProgressMonitoring :: "page \<Rightarrow> page" where
  "startProgressMonitoring st =
     (if \<not> truthy_id (currentSessionId st) then st
      else (snd (setInterval ProgressTimer st))
             \<lparr>progressInterval := Some (fst (setInterval ProgressTimer st))\<rparr>)"

text \<open>
  \<open>result.sessions.forEach(session => this.sessions.set(session.session_id, session))\<close>;
  the flag is false when reading \<open>session_id\<close> throws, with the entries set so far.
\<close>

fun set_sessions :: "jsval list \<Rightarrow> (jsval \<times> jsval) list \<Rightarrow> (jsval \<times> jsval) list \<times> bool" where
  "set_sessions [] m = (m, True)"
| "set_sessions (session # rest) m =
     (case prop_of session ''session_id'' of
        None \<Rightarrow> (m, False)
      | Some key \<Rightarrow> set_sessions rest (AList.update key session m))"

text \<open>The \<open>catch\<close> block of \<open>loadSavedSessions\<close>.\<close>

definition loadSavedSessions_failed :: "page \<Rightarrow> page" where
  "loadSavedSessions_failed st =
     renderEmptySessionsList (showNotification MsgLoadSessionsFailed Warning (emit ConsoleError st))"

text \<open>
  The part of \<open>loadSavedSessions\<close> after \<open>const result = await response.json()\<close>.
  \<open>logger\<close> is not declared in the scripts at hand; whether the page defines it is the
  field \<open>logger_defined\<close>.
\<close>

definition loadSavedSessions_result :: "jsval option \<Rightarrow> page \<Rightarrow> page" where
  "loadSavedSessions_result body st =
     (case body of
        None \<Rightarrow> loadSavedSessions_failed st
      | Some result \<Rightarrow>
          (case prop_of result ''success'' of
             None \<Rightarrow> loadSavedSessions_failed st
           | Some success \<Rightarrow>
               if truthy success \<and> truthy (get_prop result ''sessions'') then
                 (case get_prop result ''sessions'' of
                    JArr items \<Rightarrow>
                      (let st1 = st\<lparr>sessions := fst (set_sessions items [])\<rparr> in
                       if snd (set_sessions items []) then
                         (if logger_defined st then renderSessionsList st1
                          else loadSavedSessions_failed (renderSessionsList st1))
                       else loadSavedSessions_failed st1)
                  | _ \<Rightarrow> loadSavedSessions_failed (st\<lparr>sessions := []\<rparr>))
               else renderEmptySessionsList (emit ConsoleWarn st)))"

text \<open>
  \<^verbatim>\<open>
  async loadSavedSessions() {
      try {
          let response = await fetch('/api/progress/sessions');
          if (!response.ok) { response = await fetch('/api/user/sessions'); }
          if (!response.ok) { throw new Error(...); }
          const result = await response.json();
          if (result.success && result.sessions) {
              this.sessions.clear();
              result.sessions.forEach(session => { this.sessions.set(session.session_id, session); });
              this.renderSessionsList();
              logger.info(...);
          } else {
              console.warn(...);
              this.renderEmptySessionsList();
          }
      } catch (error) {
          console.error(...);
          this.showNotification('Erro ao carregar sessoes salvas', 'warning');
          this.renderEmptySessionsList();
      }
  }
  \<close>
\<close>

definition loadSavedSessions :: "http \<Rightarrow> http \<Rightarrow> page \<Rightarrow> page" where
  "loadSavedSessions r1 r2 st =
     (let st1 = emit (Fetch ''GET'' ''/api/progress/sessions'') st in
      case r1 of
        NetworkError \<Rightarrow> loadSavedSessions_failed st1
      | Response ok1 body1 \<Rightarrow>
          if ok1 then loadSavedSessions_result body1 st1
          else
            (let st2 = emit (Fetch ''GET'' ''/api/user/sessions'') st1 in
             case r2 of
               NetworkError \<Rightarrow> loadSavedSessions_failed st2
             | Response ok2 body2 \<Rightarrow>
                 if ok2 then loadSavedSessions_result body2 st2
                 else loadSavedSessions_failed st2))"

text \<open>
  The callback armed by \<open>startProgressMonitoring\<close>:
  \<^verbatim>\<open>
  async () => {
      try {
          const response = await fetch(`/api/progress/${this.currentSessionId}`);
          const data = await response.json();
          if (data.success) {
              this.updateProgress(data.percentage, data.current_step,
                                  data.total_steps, data.estimated_time);
              if (data.completed) {
                  this.stopProgressMonitoring();
                  this.showNotification('Analise concluida com sucesso!', 'success');
                  this.showProgress(false);
                  this.updateSessionControls('completed');
                  localStorage.removeItem('currentSessionId');
                  await this.loadSavedSessions();
              }
          } else if (data.error) {
              this.stopProgressMonitoring();
              this.showNotification(`Erro: ${data.error}`, 'error');
              this.showProgress(false);
          }
      } catch (error) {
          console.error('Erro no monitoramento:', error);
      }
  }
  \<close>
  \<open>resp\<close> answers the progress request, \<open>lr1\<close> and \<open>lr2\<close> the requests of
  \<open>loadSavedSessions\<close>.
\<close>

definition progressTick :: "http \<Rightarrow> http \<Rightarrow> http \<Rightarrow> page \<Rightarrow> page" where
  "progressTick resp lr1 lr2 st =
     (let st1 = emit (Fetch ''GET'' (api_progress (id_text (currentSessionId st)))) st in
      case json_of resp of
        None \<Rightarrow> emit ConsoleError st1
      | Some data \<Rightarrow>
          (case prop_of data ''success'' of
             None \<Rightarrow> emit ConsoleError st1
           | Some success \<Rightarrow>
               if truthy success then
                 (let st2 = updateProgress (get_prop data ''percentage'')
                              (get_prop data ''current_step'') (get_prop data ''total_steps'')
                              (get_prop data ''estimated_time'') st1 in
                  if truthy (get_prop data ''completed'') then
                    (let st3 = stopProgressMonitoring st2;
                         st4 = showNotification MsgAnalysisCompleted Success st3;
                         st5 = showProgress False st4;
                         st6 = updateSessionControls ''completed'' st5;
                         st7 = st6\<lparr>ls_currentSessionId := None\<rparr>
                     in loadSavedSessions lr1 lr2 st7)
                  else st2)
               else if truthy (get_prop data ''error'') then
                 (let st2 = stopProgressMonitoring st1;
                      st3 = showNotification (MsgPollError (get_prop data ''error'')) Error st2
                  in showProgress False st3)
               else st1))"

text \<open>
  The browser runs the callback of a timer only while the timer is live: a tick of a
  handle that has been cleared does not happen.
\<close>

definition progressTimerFires :: "nat \<Rightarrow> http \<Rightarrow> http \<Rightarrow> http \<Rightarrow> page \<Rightarrow> page" where
  "progressTimerFires h resp lr1 lr2 st =
     (if (h, ProgressTimer) \<in> set (intervals st) then progressTick resp lr1 lr2 st else st)"

text \<open>
  \<^verbatim>\<open>
  async continueSession(sessionId) {
      try {
          this.showProgress(true);
          this.updateProgress(0, 'Continuando sessao...');
          const response = await fetch(`/api/sessions/${sessionId}/continue`, { method: 'POST' });
          const result = await response.json();
          if (result.success) {
              this.currentSessionId = sessionId;
              localStorage.setItem('currentSessionId', sessionId);
              this.showNotification('Sessao continuada com sucesso', 'success');
              this.startProgressMonitoring();
          } else {
              throw new Error(result.error);
          }
      } catch (error) {
          this.showNotification(`Erro ao continuar: ${error.message}`, 'error');
          this.showProgress(false);
      }
  }
  \<close>
\<close>

definition continueSession_failed :: "page \<Rightarrow> page" where
  "continueSession_failed st = showProgress False (showNotification MsgContinueFailed Error st)"

definition continueSession :: "string \<Rightarrow> http \<Rightarrow> page \<Rightarrow> page" where
  "continueSession sessionId resp st =
     (let st1 = showProgress True st;
          st2 = updateProgress (JNum 0) (JStr ''Continuando sessao...'') JUndefined JUndefined st1;
          st3 = emit (Fetch ''POST'' (api_session_continue sessionId)) st2
      in case json_of resp of
           None \<Rightarrow> continueSession_failed st3
         | Some result \<Rightarrow>
             (case prop_of result ''success'' of
                None \<Rightarrow> continueSession_failed st3
              | Some success \<Rightarrow>
                  if truthy success then
                    (let st4 = st3\<lparr>currentSessionId := Some sessionId,
                                   ls_currentSessionId := Some sessionId\<rparr>;
                         st5 = showNotification MsgContinued Success st4
                     in startProgressMonitoring st5)
                  else continueSession_failed st3))"

text \<open>
  \<^verbatim>\<open>
  async checkSessionStatus(sessionId) {
      try {
          const response = await fetch(`/api/sessions/${sessionId}/status`);
          const result = await response.json();
          if (result.success) {
              const session = result.session;
              switch (session.status) {
                  case 'running':
                      this.showProgress(true);
                      this.startProgressMonitoring();
                      this.updateSessionControls('running');
                      this.showNotification('Sessao anterior restaurada e em execucao', 'info');
                      break;
                  case 'paused':
                      this.updateSessionControls('paused');
                      this.showNotification('Sessao anterior encontrada (pausada)', 'info');
                      break;
                  case 'completed':
                      localStorage.removeItem('currentSessionId');
                      this.showNotification('Ultima sessao foi concluida', 'success');
                      break;
                  case 'error':
                      this.showNotification('Ultima sessao teve erro', 'warning');
                      break;
              }
          }
      } catch (error) {
          console.error('Erro ao verificar status da sessao:', error);
          localStorage.removeItem('currentSessionId');
      }
  }
  \<close>
\<close>

definition checkSessionStatus_failed :: "page \<Rightarrow> page" where
  "checkSessionStatus_failed st = (emit ConsoleError st)\<lparr>ls_currentSessionId := None\<rparr>"

definition checkSessionStatus :: "string \<Rightarrow> http \<Rightarrow> page \<Rightarrow> page" where
  "checkSessionStatus sessionId resp st =
     (let st1 = emit (Fetch ''GET'' (api_session_status sessionId)) st in
      case json_of resp of
        None \<Rightarrow> checkSessionStatus_failed st1
      | Some result \<Rightarrow>
          (case prop_of result ''success'' of
             None \<Rightarrow> checkSessionStatus_failed st1
           | Some success \<Rightarrow>
               if truthy success then
                 (case prop_of (get_prop result ''session'') ''status'' of
                    None \<Rightarrow> checkSessionStatus_failed st1
                  | Some status \<Rightarrow>
                      if status = JStr ''running'' then
                        showNotification MsgRestoredRunning Info
                          (updateSessionControls ''running''
                            (startProgressMonitoring (showProgress True st1)))
                      else if status = JStr ''paused'' then
                        showNotification MsgFoundPaused Info
                          (updateSessionControls ''paused'' st1)
                      else if status = JStr ''completed'' then
                        showNotification MsgLastCompleted Success
                          (st1\<lparr>ls_currentSessionId := None\<rparr>)
                      else if status = JStr ''error'' then
                        showNotification MsgLastError Warning st1
                      else st1)
               else st1))"

text \<open>
  \<^verbatim>\<open>
  async restoreLastSession() {
      const lastSessionId = localStorage.getItem('currentSessionId');
      if (lastSessionId) {
          this.currentSessionId = lastSessionId;
          await this.checkSessionStatus(lastSessionId);
      }
      this.restoreFormData();
  }
  \<close>
\<close>

definition restoreLastSession :: "http \<Rightarrow> page \<Rightarrow> page" where
  "restoreLastSession resp st =
     (case ls_currentSessionId st of
        None \<Rightarrow> restoreFormData st
      | Some lastSessionId \<Rightarrow>
          if lastSessionId = [] then restoreFormData st
          else restoreFormData
                 (checkSessionStatus lastSessionId resp
                    (st\<lparr>currentSessionId := Some lastSessionId\<rparr>)))"

text \<open>
  \<^verbatim>\<open>
  async deleteSession(sessionId) {
      if (!confirm('Tem certeza que deseja excluir esta sessao?')) { return; }
      try {
          const response = await fetch(`/api/sessions/${sessionId}`, { method: 'DELETE' });
          const result = await response.json();
          if (result.success) {
              this.showNotification('Sessao excluida com sucesso', 'success');
              this.sessions.delete(sessionId);
              this.renderSessionsList();
          } else {
              throw new Error(result.error);
          }
      } catch (error) {
          this.showNotification(`Erro ao excluir: ${error.message}`, 'error');
      }
  }
  \<close>
\<close>

definition system_deleteSession :: "string \<Rightarrow> bool \<Rightarrow> http \<Rightarrow> page \<Rightarrow> page" where
  "system_deleteSession sessionId confirmed resp st =
     (let st0 = emit ConfirmDialog st in
      if \<not> confirmed then st0
      else
        (let st1 = emit (Fetch ''DELETE'' (api_session sessionId)) st0 in
         case json_of resp of
           None \<Rightarrow> showNotification MsgDeleteFailed Error st1
         | Some result \<Rightarrow>
             (case prop_of result ''success'' of
                None \<Rightarrow> showNotification MsgDeleteFailed Error st1
              | Some success \<Rightarrow>
                  if truthy success then
                    (let st2 = showNotification MsgDeleted Success st1;
                         st3 = st2\<lparr>sessions := AList.delete (JStr sessionId) (sessions st2)\<rparr>
                     in renderSessionsList st3)
                  else showNotification MsgDeleteFailed Error st1)))"

subsection \<open>Global functions of the analysis script\<close>

definition getFormData :: "page \<Rightarrow> jsobj" where
  "getFormData st = formData st"

definition showAlert :: "message \<Rightarrow> severity \<Rightarrow> page \<Rightarrow> page" where
  "showAlert msg sev st = emit (Alert sev msg) st"

definition showResults :: "jsval \<Rightarrow> page \<Rightarrow> page" where
  "showResults results st = emit (ShowResults results) st"

text \<open>
  \<^verbatim>\<open>
  function updateProgressUI(percentage, message) {
      const progressBar = document.querySelector('.progress-bar');
      const progressText = document.querySelector('.progress-text');
      if (progressBar) { progressBar.style.width = `${percentage}%`; }
      if (progressText) {
          progressText.textContent = `${message} (${percentage.toFixed(1)}%)`;
      }
  }
  \<close>
  \<open>percentage.toFixed\<close> throws unless \<open>percentage\<close> is a number; the flag of the result
  is false when it does.
\<close>

definition is_number :: "jsval \<Rightarrow> bool" where
  "is_number v = (case v of JNum n \<Rightarrow> True | _ \<Rightarrow> False)"

definition updateProgressUI :: "jsval \<Rightarrow> jsval \<Rightarrow> page \<Rightarrow> page \<times> bool" where
  "updateProgressUI percentage msg st =
     (emit (UpdateProgressUI percentage msg) st,
      \<not> dom_progress_text st \<or> is_number percentage)"

text \<open>
  \<^verbatim>\<open>
  function startAutoSave() {
      if (autoSaveInterval) { clearInterval(autoSaveInterval); }
      autoSaveInterval = setInterval(() => { ... }, 30000);
  }
  function stopAutoSave() {
      if (autoSaveInterval) { clearInterval(autoSaveInterval); autoSaveInterval = null; }
  }
  \<close>
\<close>

definition startAutoSave :: "page \<Rightarrow> page" where
  "startAutoSave st =
     (let st1 = (case autoSaveInterval st of None \<Rightarrow> st | Some h \<Rightarrow> clearInterval h st)
      in (snd (setInterval AutoSaveTimer st1))
           \<lparr>autoSaveInterval := Some (fst (setInterval AutoSaveTimer st1))\<rparr>)"

definition stopAutoSave :: "page \<Rightarrow> page" where
  "stopAutoSave st =
     (case autoSaveInterval st of
        None \<Rightarrow> st
      | Some h \<Rightarrow> (clearInterval h st)\<lparr>autoSaveInterval := None\<rparr>)"

text \<open>
  \<^verbatim>\<open>
  async function pollProgress() {
      if (!currentAnalysisId) return;
      try {
          const response = await fetch(`/api/progress/${currentAnalysisId}`);
          const data = await response.json();
          if (data.success) {
              updateProgressUI(data.percentage, data.current_step);
              persistence.saveSession(currentAnalysisId, {
                  ...getFormData(),
                  progress: data.percentage,
                  status: data.completed ? 'completed' : 'running',
                  current_step: data.current_step,
                  results: data.results
              });
              if (data.completed) {
                  showResults(data.results);
                  stopAutoSave();
                  isAnalysisRunning = false;
                  currentAnalysisId = null;
              } else if (isAnalysisRunning) {
                  setTimeout(pollProgress, 3000);
              }
          } else {
              throw new Error(data.error || 'Erro ao obter progresso');
          }
      } catch (error) {
          console.error('Erro no polling de progresso:', error);
          showAlert('Erro ao monitorar progresso: ' + error.message, 'error');
          stopAutoSave();
          isAnalysisRunning = false;
      }
  }
  \<close>
\<close>

definition pollProgress_failed :: "page \<Rightarrow> page" where
  "pollProgress_failed st =
     (stopAutoSave (showAlert MsgMonitorFailed Error (emit ConsoleError st)))
       \<lparr>isAnalysisRunning := False\<rparr>"

text \<open>The object literal handed to \<open>persistence.saveSession\<close> by \<open>pollProgress\<close>.\<close>

definition poll_snapshot :: "jsobj \<Rightarrow> jsval \<Rightarrow> jsobj" where
  "poll_snapshot form data =
     set_field
       (set_field
          (set_field
             (set_field form ''progress'' (get_prop data ''percentage''))
             ''status''
             (if truthy (get_prop data ''completed'') then JStr ''completed''
              else JStr ''running''))
          ''current_step'' (get_prop data ''current_step''))
       ''results'' (get_prop data ''results'')"

definition pollProgress :: "http \<Rightarrow> string \<Rightarrow> page \<Rightarrow> page" where
  "pollProgress resp now st =
     (case currentAnalysisId st of
        None \<Rightarrow> st
      | Some analysisId \<Rightarrow>
          if analysisId = [] then st
          else
            (let st1 = emit (Fetch ''GET'' (api_progress analysisId)) st in
             case json_of resp of
               None \<Rightarrow> pollProgress_failed st1
             | Some data \<Rightarrow>
                 (case prop_of data ''success'' of
                    None \<Rightarrow> pollProgress_failed st1
                  | Some success \<Rightarrow>
                      if truthy success then
                        (let ui = updateProgressUI (get_prop data ''percentage'')
                                    (get_prop data ''current_step'') st1 in
                         if \<not> snd ui then pollProgress_failed (fst ui)
                         else
                           (let st3 = persistence_saveSession analysisId
                                        (poll_snapshot (getFormData (fst ui)) data) now (fst ui) in
                            if truthy (get_prop data ''completed'') then
                              (stopAutoSave (showResults (get_prop data ''results'') st3))
                                \<lparr>isAnalysisRunning := False, currentAnalysisId := None\<rparr>
                            else if isAnalysisRunning st3 then
                              st3\<lparr>poll_timeouts := Suc (poll_timeouts st3)\<rparr>
                            else st3))
                      else pollProgress_failed st1)))"


text \<open>
  \<^verbatim>\<open>
  async function checkAnalysisStatus(sessionId) {
      try {
          const response = await fetch(`/api/analysis_status/${sessionId}`);
          const data = await response.json();
          if (data.success) {
              currentAnalysisId = sessionId;
              isAnalysisRunning = data.status === 'running';
              if (data.status === 'running') {
                  updateProgressUI(data.progress || 0, data.current_step || 'Continuando...');
                  startAutoSave();
                  pollProgress();
              } else if (data.status === 'completed') {
                  showResults(data.results);
                  stopAutoSave();
              } else {
                  persistence.saveSession(sessionId, {
                      ...getFormData(),
                      progress: data.progress || 0,
                      status: data.status,
                      results: data.results
                  });
              }
          } else {
              throw new Error(data.error || 'Nao foi possivel verificar o status');
          }
      } catch (error) {
          console.error('Erro ao verificar status:', error);
          showAlert('Erro ao verificar status da analise: ' + error.message, 'error');
      }
  }
  \<close>
  \<open>resp\<close> answers the status request and \<open>pollResp\<close> the request of the
  \<open>pollProgress\<close> call it may start.
\<close>

definition checkAnalysisStatus_failed :: "page \<Rightarrow> page" where
  "checkAnalysisStatus_failed st = showAlert MsgStatusCheckFailed Error (emit ConsoleError st)"

definition checkAnalysisStatus :: "string \<Rightarrow> http \<Rightarrow> http \<Rightarrow> string \<Rightarrow> page \<Rightarrow> page" where
  "checkAnalysisStatus sessionId resp pollResp now st =
     (let st1 = emit (Fetch ''GET'' (api_analysis_status sessionId)) st in
      case json_of resp of
        None \<Rightarrow> checkAnalysisStatus_failed st1
      | Some data \<Rightarrow>
          (case prop_of data ''success'' of
             None \<Rightarrow> checkAnalysisStatus_failed st1
           | Some success \<Rightarrow>
               if truthy success then
                 (let st2 = st1\<lparr>currentAnalysisId := Some sessionId,
                                isAnalysisRunning := (get_prop data ''status'' = JStr ''running'')\<rparr>
                  in
                  if get_prop data ''status'' = JStr ''running'' then
                    (let ui = updateProgressUI (js_or (get_prop data ''progress'') (JNum 0))
                                (js_or (get_prop data ''current_step'') (JStr ''Continuando...''))
                                st2 in
                     if \<not> snd ui then checkAnalysisStatus_failed (fst ui)
                     else pollProgress pollResp now (startAutoSave (fst ui)))
                  else if get_prop data ''status'' = JStr ''completed'' then
                    stopAutoSave (showResults (get_prop data ''results'') st2)
                  else
                    persistence_saveSession sessionId
                      (set_field
                         (set_field
                            (set_field (getFormData st2) ''progress''
                               (js_or (get_prop data ''progress'') (JNum 0)))
                            ''status'' (get_prop data ''status''))
                         ''results'' (get_prop data ''results''))
                      now st2)
               else checkAnalysisStatus_failed st1))"

text \<open>
  \<^verbatim>\<open>
  function continueAnalysis(sessionId) {
      const sessionData = persistence.getSession(sessionId);
      if (!sessionData) {
          showAlert('Sessao nao encontrada', 'error');
          return;
      }
      document.getElementById('segmento').value = sessionData.segmento || '';
      document.getElementById('produto').value = sessionData.produto || '';
      document.getElementById('publico').value = sessionData.publico || '';
      document.getElementById('preco').value = sessionData.preco || '';
      document.getElementById('objetivo_receita').value = sessionData.objetivo_receita || '';
      currentAnalysisId = sessionId;
      if (sessionData.progress === 100 && sessionData.results) {
          showResults(sessionData.results);
          return;
      }
      checkAnalysisStatus(sessionId);
  }
  \<close>
\<close>

text \<open>
  The five assignments set the values of the elements with these ids. The model takes
  them to be the fields of the analysis form with the same names, which is where
  \<open>getFormData\<close> reads.
\<close>

definition restore_input :: "jsobj \<Rightarrow> string \<Rightarrow> jsobj \<Rightarrow> jsobj" where
  "restore_input sessionData name form =
     set_field form name (js_or (field_of sessionData name) (JStr []))"

definition continueAnalysis :: "string \<Rightarrow> http \<Rightarrow> http \<Rightarrow> string \<Rightarrow> page \<Rightarrow> page" where
  "continueAnalysis sessionId resp pollResp now st =
     (case getSession st sessionId of
        None \<Rightarrow> showAlert MsgSessionNotFound Error st
      | Some sessionData \<Rightarrow>
          (let st1 = st\<lparr>formData :=
                          restore_input sessionData ''objetivo_receita''
                            (restore_input sessionData ''preco''
                              (restore_input sessionData ''publico''
                                (restore_input sessionData ''produto''
                                  (restore_input sessionData ''segmento'' (formData st)))))\<rparr>;
               st2 = st1\<lparr>currentAnalysisId := Some sessionId\<rparr>
           in
           if field_of sessionData ''progress'' = JNum 100
              \<and> truthy (field_of sessionData ''results'')
           then showResults (field_of sessionData ''results'') st2
           else checkAnalysisStatus sessionId resp pollResp now st2))"

text \<open>
  \<^verbatim>\<open>
  function deleteAnalysis(sessionId) {
      if (confirm('Tem certeza que deseja excluir esta analise?')) {
          persistence.deleteSession(sessionId);
          showAlert('Analise excluida com sucesso', 'success');
      }
  }
  \<close>
\<close>

definition deleteAnalysis :: "string \<Rightarrow> bool \<Rightarrow> page \<Rightarrow> page" where
  "deleteAnalysis sessionId confirmed st =
     (let st0 = emit ConfirmDialog st in
      if confirmed then showAlert MsgAnalysisDeleted Success (persistence_deleteSession sessionId st0)
      else st0)"

subsection \<open>Observations on a trace\<close>

fun is_fetch :: "event \<Rightarrow> bool" where
  "is_fetch (Fetch m u) = True"
| "is_fetch e = False"

definition network_calls :: "page \<Rightarrow> event list" where
  "network_calls st = filter is_fetch (trace st)"

definition completed_notifications :: "page \<Rightarrow> nat" where
  "completed_notifications st =
     length (filter (\<lambda>e. e = Notify Success MsgAnalysisCompleted) (trace st))"

definition progress_timers :: "page \<Rightarrow> nat list" where
  "progress_timers st = map fst (filter (\<lambda>t. snd t = ProgressTimer) (intervals st))"


text \<open>The test \<open>if (result.success)\<close> on the answer to a request, false when it throws.\<close>

definition reply_success :: "http \<Rightarrow> bool" where
  "reply_success resp =
     (case json_of resp of
        None \<Rightarrow> False
      | Some result \<Rightarrow>
          (case prop_of result ''success'' of None \<Rightarrow> False | Some success \<Rightarrow> truthy success))"

section \<open>Sample inputs\<close>

definition success_reply :: http where
  "success_reply = Response True (Some (JObj [(''success'', JBool True)]))"


definition running_data :: jsval where
  "running_data =
     JObj [(''success'', JBool True), (''percentage'', JNum 40),
       (''current_step'', JStr ''step2''), (''completed'', JBool False),
       (''completed_steps'', JArr [JNum 1, JNum 2])]"

definition running_reply :: http where
  "running_reply = Response True (Some running_data)"

definition completed_data :: jsval where
  "completed_data =
     JObj [(''success'', JBool True), (''percentage'', JNum 100),
       (''current_step'', JStr ''done''), (''completed'', JBool True),
       (''results'', JObj [(''summary'', JStr ''ok'')])]"

definition completed_reply :: http where
  "completed_reply = Response True (Some completed_data)"

definition status_reply :: "string \<Rightarrow> http" where
  "status_reply s =
     Response True (Some (JObj [(''success'', JBool True),
       (''session'', JObj [(''status'', JStr s)])]))"

text \<open>
  The page after the user continues session A and then session B, both accepted by the
  backend.
\<close>

definition two_pollers :: page where
  "two_pollers =
     continueSession ''B'' success_reply (continueSession ''A'' success_reply initial_page)"


definition refused_data :: jsval where
  "refused_data = JObj [(''success'', JBool False), (''error'', JStr ''Session not found'')]"


text \<open>The page after the user continues session A: one polling timer is live.\<close>

definition refused_reply :: http where
  "refused_reply = Response False (Some refused_data)"


text \<open>A freshly loaded page whose storage names \<open>s1\<close> as the last active session.\<close>

definition restored_page :: page where
  "restored_page = initial_page\<lparr>ls_currentSessionId := Some ''s1''\<rparr>"

text \<open>
  A page polling analysis \<open>s1\<close>: the registry holds a snapshot saved from the form when
  it read \<open>fitness\<close>, and the user has since typed \<open>saude\<close> into the form.
\<close>

definition cached_snapshot :: jsobj where
  "cached_snapshot =
     [(''segmento'', JStr ''fitness''), (''produto'', JStr ''app''),
      (''completed_steps'', JArr [JNum 1]), (''status'', JStr ''running''),
      (''lastSaved'', JStr ''2024-01-01T00:00:00.000Z''), (''progress'', JNum 10)]"

definition cached_page :: page where
  "cached_page =
     initial_page\<lparr>currentAnalysisId := Some ''s1'', isAnalysisRunning := True,
       savedSessions := [''s1'' \<mapsto> cached_snapshot],
       formData := [(''segmento'', JStr ''saude''), (''produto'', JStr ''app'')]\<rparr>"

text \<open>The status endpoint reports a running analysis at 10 percent.\<close>

definition analysis_running_data :: jsval where
  "analysis_running_data =
     JObj [(''success'', JBool True), (''status'', JStr ''running''), (''progress'', JNum 10),
           (''current_step'', JStr ''step1'')]"

definition analysis_running_reply :: http where
  "analysis_running_reply = Response True (Some analysis_running_data)"

text \<open>
  A page that lists the paused session \<open>s1\<close> of the backend and also holds a snapshot
  of \<open>s1\<close> in its registry.
\<close>

definition listed_page :: page where
  "listed_page =
     initial_page\<lparr>sessions := [(JStr ''s1'',
                      JObj [(''session_id'', JStr ''s1''), (''status'', JStr ''paused'')])],
       savedSessions := [''s1'' \<mapsto> cached_snapshot]\<rparr>"

text \<open>A page whose registry holds a finished analysis \<open>s2\<close> with its results.\<close>

definition finished_snapshot :: jsobj where
  "finished_snapshot =
     [(''segmento'', JStr ''fitness''), (''produto'', JStr ''app''),
      (''status'', JStr ''completed''), (''results'', JObj [(''summary'', JStr ''ok'')]),
      (''lastSaved'', JStr ''2024-01-01T00:00:00.000Z''), (''progress'', JNum 100)]"

definition finished_page :: page where
  "finished_page = initial_page\<lparr>savedSessions := [''s2'' \<mapsto> finished_snapshot]\<rparr>"

section \<open>Properties of the step gate\<close>

lemma canContinueFromStep_1: "canContinueFromStep 1 cs"
  by (simp add: canContinueFromStep_def)

lemma canContinueFromStep_2: "canContinueFromStep 2 cs = (1 \<in> set cs)"
  by (simp add: canContinueFromStep_def array_includes_def)

lemma canContinueFromStep_3: "canContinueFromStep 3 cs = (1 \<in> set cs \<and> 2 \<in> set cs)"
  by (simp add: canContinueFromStep_def array_includes_def)

lemma steps_below_2: "(\<forall>j\<in>{1..(2::int) - 1}. j \<in> set cs) = (1 \<in> set cs)"
  by auto

lemma steps_below_3: "(\<forall>j\<in>{1..(3::int) - 1}. j \<in> set cs) = (1 \<in> set cs \<and> 2 \<in> set cs)"
proof -
  have "{1..(3::int) - 1} = {1, 2}" by auto
  then show ?thesis by simp
qed

text \<open>
  C1. The gate depends only on the step and on the set of completed steps; step 1 is
  always resumable; for a step \<open>k\<close> with \<open>1 < k \<le> 3\<close>, step \<open>k\<close> is resumable exactly when
  every step of \<open>1..k-1\<close> is among the completed steps; and the five sample values of the
  specification hold.
\<close>

theorem canResume_step_gate:
  "(set cs = set cs' \<longrightarrow> canContinueFromStep k cs = canContinueFromStep k cs')
   \<and> canContinueFromStep 1 cs
   \<and> (1 < k \<and> k \<le> 3 \<longrightarrow>
        canContinueFromStep k cs = (\<forall>j\<in>{1..k - 1}. j \<in> set cs))
   \<and> canContinueFromStep 2 [1]
   \<and> \<not> canContinueFromStep 2 []
   \<and> canContinueFromStep 3 [1, 2]
   \<and> \<not> canContinueFromStep 3 [1]"
proof -
  have pure: "set cs = set cs' \<longrightarrow> canContinueFromStep k cs = canContinueFromStep k cs'"
    by (simp add: canContinueFromStep_def array_includes_def)
  have gate: "1 < k \<and> k \<le> 3 \<longrightarrow>
        canContinueFromStep k cs = (\<forall>j\<in>{1..k - 1}. j \<in> set cs)"
  proof
    assume "1 < k \<and> k \<le> 3"
    then have "k = 2 \<or> k = 3" by arith
    then show "canContinueFromStep k cs = (\<forall>j\<in>{1..k - 1}. j \<in> set cs)"
    proof
      assume "k = 2"
      then show ?thesis
        using canContinueFromStep_2 [of cs] steps_below_2 [of cs] by simp
    next
      assume "k = 3"
      then show ?thesis
        using canContinueFromStep_3 [of cs] steps_below_3 [of cs] by simp
    qed
  qed
  have samples: "canContinueFromStep 2 [1] \<and> \<not> canContinueFromStep 2 []
      \<and> canContinueFromStep 3 [1, 2] \<and> \<not> canContinueFromStep 3 [1]"
    by (simp add: canContinueFromStep_2 canContinueFromStep_3)
  from pure canContinueFromStep_1 gate samples show ?thesis by blast
qed

theorem canResume_step_gate_witness:
  "set [2, 1, 1] = set [1, 2 :: int]
   \<and> canContinueFromStep 3 [2, 1, 1] = canContinueFromStep 3 [1, 2]
   \<and> (1 :: int) < 3 \<and> (3 :: int) \<le> 3
   \<and> canContinueFromStep 3 [2, 1, 1] = (\<forall>j\<in>{1..3 - 1}. j \<in> set [2, 1, 1 :: int])"
proof -
  have s: "set [2, 1, 1] = set [1, 2 :: int]" by auto
  have r: "(1 :: int) < 3 \<and> (3 :: int) \<le> 3" by simp
  note t = canResume_step_gate [of "[2, 1, 1]" "[1, 2]" 3]
  from t s have a: "canContinueFromStep 3 [2, 1, 1] = canContinueFromStep 3 [1, 2]"
    by blast
  from t r have b:
    "canContinueFromStep 3 [2, 1, 1] = (\<forall>j\<in>{1..3 - 1}. j \<in> set [2, 1, 1 :: int])"
    by blast
  from s r a b show ?thesis by blast
qed

text \<open>
  C10. The gate returns a value for every integer step, and that value is false for
  every step outside \<open>1..3\<close>, whatever the completed steps are.
\<close>

theorem canContinueFromStep_outside_range:
  "(k < 1 \<or> 3 < k) \<longrightarrow> canContinueFromStep k cs = False"
  by (simp add: canContinueFromStep_def)

theorem canContinueFromStep_outside_range_witness:
  "((0 :: int) < 1 \<or> (3 :: int) < 0) \<and> canContinueFromStep 0 [1, 2, 3] = False
   \<and> ((4 :: int) < 1 \<or> (3 :: int) < 4) \<and> canContinueFromStep 4 [1, 2, 3] = False
   \<and> ((- 7 :: int) < 1 \<or> (3 :: int) < - 7) \<and> canContinueFromStep (- 7) [] = False"
  using canContinueFromStep_outside_range [of 0 "[1, 2, 3]"]
        canContinueFromStep_outside_range [of 4 "[1, 2, 3]"]
        canContinueFromStep_outside_range [of "- 7" "[]"]
  by simp

section \<open>Properties of the session identifier\<close>

lemma newSessionId_nonempty: "newSessionId now rnd \<noteq> []"
  by (simp add: newSessionId_def)

text \<open>
  C9. With no identifier stored, the first call generates one and stores it; a call
  that follows any call returns the same identifier and leaves the storage as it was.
\<close>

theorem getSessionId_idempotent:
  "(ss ''arqv30_session_id'' = None \<longrightarrow>
      getSessionId ss now rnd =
        (newSessionId now rnd, ss(''arqv30_session_id'' \<mapsto> newSessionId now rnd)))
   \<and> getSessionId (snd (getSessionId ss now rnd)) now' rnd' = getSessionId ss now rnd
   \<and> fst (getSessionId (snd (getSessionId ss now rnd)) now' rnd')
       = fst (getSessionId ss now rnd)
   \<and> snd (getSessionId (snd (getSessionId ss now rnd)) now' rnd')
       = snd (getSessionId ss now rnd)"
proof -
  have first: "ss ''arqv30_session_id'' = None \<longrightarrow>
      getSessionId ss now rnd =
        (newSessionId now rnd, ss(''arqv30_session_id'' \<mapsto> newSessionId now rnd))"
    by (simp add: getSessionId_def)
  have again: "getSessionId (snd (getSessionId ss now rnd)) now' rnd' = getSessionId ss now rnd"
    by (simp add: getSessionId_def newSessionId_nonempty split: option.splits)
  from first again show ?thesis by simp
qed

theorem getSessionId_idempotent_witness:
  "Map.empty ''arqv30_session_id'' = (None :: string option)
   \<and> getSessionId Map.empty ''1700000000000'' ''k3j9x0q2a''
       = (''session_1700000000000_k3j9x0q2a'',
          [''arqv30_session_id'' \<mapsto> ''session_1700000000000_k3j9x0q2a''])
   \<and> fst (getSessionId (snd (getSessionId Map.empty ''1700000000000'' ''k3j9x0q2a''))
            ''1700000000555'' ''zzzzzzzzz'')
       = ''session_1700000000000_k3j9x0q2a''"
proof -
  have e: "Map.empty ''arqv30_session_id'' = (None :: string option)" by simp
  note t = getSessionId_idempotent
          [of Map.empty "''1700000000000''" "''k3j9x0q2a''" "''1700000000555''" "''zzzzzzzzz''"]
  from t e have a: "getSessionId Map.empty ''1700000000000'' ''k3j9x0q2a''
       = (newSessionId ''1700000000000'' ''k3j9x0q2a'',
          [''arqv30_session_id'' \<mapsto> newSessionId ''1700000000000'' ''k3j9x0q2a''])"
    by blast
  from t have b:
    "fst (getSessionId (snd (getSessionId Map.empty ''1700000000000'' ''k3j9x0q2a''))
            ''1700000000555'' ''zzzzzzzzz'')
       = fst (getSessionId Map.empty ''1700000000000'' ''k3j9x0q2a'')"
    by blast
  have n: "newSessionId ''1700000000000'' ''k3j9x0q2a'' = ''session_1700000000000_k3j9x0q2a''"
    by (simp add: newSessionId_def)
  from e a b n show ?thesis by simp
qed

section \<open>Basic facts about the embedding\<close>

lemmas ui_defs = showNotification_def showProgress_def updateProgress_def
  updateSessionControls_def renderEmptySessionsList_def renderSessionsList_def
  restoreFormData_def emit_def showAlert_def showResults_def updateSessionsList_def

lemma field_of_set_field:
  "field_of (set_field obj k v) k' = (if k' = k then v else field_of obj k')"
  by (simp add: field_of_def set_field_def update_conv')

lemma take_of_prefix:
  assumes "take (length xs) ys = xs" "k \<le> length xs"
  shows "take k ys = take k xs"
proof -
  have "take k (take (length xs) ys) = take k ys"
    using assms(2) by (simp add: min_def)
  with assms(1) show ?thesis by simp
qed

lemma startProgressMonitoring_active:
  "truthy_id (currentSessionId st) \<Longrightarrow>
   startProgressMonitoring st =
     st\<lparr>intervals := intervals st @ [(next_handle st, ProgressTimer)],
        next_handle := Suc (next_handle st), progressInterval := Some (next_handle st)\<rparr>"
  by (simp add: startProgressMonitoring_def setInterval_def)

text \<open>Starting the monitor never cancels a timer: every live timer stays live.\<close>

lemma startProgressMonitoring_keeps_timers:
  "set (intervals st) \<subseteq> set (intervals (startProgressMonitoring st))"
  by (auto simp add: startProgressMonitoring_def setInterval_def)

lemma two_pollers_eval:
  "two_pollers =
     initial_page\<lparr>currentSessionId := Some ''B'', progressInterval := Some 1,
       ls_currentSessionId := Some ''B'',
       intervals := [(0, ProgressTimer), (1, ProgressTimer)], next_handle := 2,
       trace := [ShowProgress True,
                 UpdateProgress (JNum 0) (JStr ''Continuando sessao...'') (JNum 13) (JStr []),
                 Fetch ''POST'' (api_session_continue ''A''), Notify Success MsgContinued,
                 ShowProgress True,
                 UpdateProgress (JNum 0) (JStr ''Continuando sessao...'') (JNum 13) (JStr []),
                 Fetch ''POST'' (api_session_continue ''B''), Notify Success MsgContinued]\<rparr>"
  by (simp add: two_pollers_def continueSession_def success_reply_def initial_page_def json_of_def
        field_of_def ui_defs Let_def startProgressMonitoring_def setInterval_def truthy_id_def
        default_arg_def)

section \<open>The progress poller of ModernAnalysisSystem\<close>

text \<open>
  C2. The claim: starting the poller for session B while the poller of session A is
  active first stops A's polling, so that two polling timers are never live together.
  The code at the claim's input: after \<open>continueSession('A')\<close> and \<open>continueSession('B')\<close>
  both timers are live and the field \<open>progressInterval\<close> holds only the second handle;
  the first timer still fires, and since its callback reads \<open>this.currentSessionId\<close>
  when it runs it polls B a second time per period; \<open>stopProgressMonitoring\<close> cancels the
  second timer only, after which no field holds the handle of the first.
\<close>

theorem second_start_keeps_first_timer:
  "progress_timers two_pollers = [0, 1]
   \<and> progressInterval two_pollers = Some 1
   \<and> currentSessionId two_pollers = Some ''B''
   \<and> network_calls (progressTimerFires 0 running_reply NetworkError NetworkError two_pollers)
       = network_calls two_pollers @ [Fetch ''GET'' (api_progress ''B'')]
   \<and> progress_timers (stopProgressMonitoring two_pollers) = [0]
   \<and> progressInterval (stopProgressMonitoring two_pollers) = None"
  by (simp add: two_pollers_eval initial_page_def progress_timers_def stopProgressMonitoring_def
        clearInterval_def progressTimerFires_def progressTick_def running_reply_def running_data_def json_of_def
        field_of_def get_prop_def id_text_def network_calls_def ui_defs default_arg_def Let_def)

text \<open>
  With a single live timer, the one recorded in \<open>progressInterval\<close>, a tick that reports
  completion cancels it, clears the stored marker and adds exactly one completion
  notification.
\<close>

lemma completed_notifications_emit:
  "completed_notifications (emit e st) =
     (if e = Notify Success MsgAnalysisCompleted then Suc (completed_notifications st)
      else completed_notifications st)"
  by (simp add: completed_notifications_def emit_def)

lemma completed_notifications_updates:
  "completed_notifications (st\<lparr>sessions := s\<rparr>) = completed_notifications st"
  "completed_notifications (st\<lparr>ls_currentSessionId := m\<rparr>) = completed_notifications st"
  "completed_notifications (st\<lparr>progressInterval := p\<rparr>) = completed_notifications st"
  "completed_notifications (clearInterval h st) = completed_notifications st"
  by (simp_all add: completed_notifications_def clearInterval_def)

lemma emit_keeps:
  "intervals (emit e st) = intervals st"
  "progressInterval (emit e st) = progressInterval st"
  "ls_currentSessionId (emit e st) = ls_currentSessionId st"
  "sessions (emit e st) = sessions st"
  "logger_defined (emit e st) = logger_defined st"
  by (simp_all add: emit_def)

lemmas ui_emit = showNotification_def showProgress_def updateProgress_def
  updateSessionControls_def renderEmptySessionsList_def renderSessionsList_def

lemma loadSavedSessions_failed_keeps:
  "intervals (loadSavedSessions_failed st) = intervals st"
  "progressInterval (loadSavedSessions_failed st) = progressInterval st"
  "ls_currentSessionId (loadSavedSessions_failed st) = ls_currentSessionId st"
  "completed_notifications (loadSavedSessions_failed st) = completed_notifications st"
  by (simp_all add: loadSavedSessions_failed_def ui_emit emit_keeps
        completed_notifications_emit)

lemma loadSavedSessions_result_keeps:
  "intervals (loadSavedSessions_result body st) = intervals st"
  "progressInterval (loadSavedSessions_result body st) = progressInterval st"
  "ls_currentSessionId (loadSavedSessions_result body st) = ls_currentSessionId st"
  "completed_notifications (loadSavedSessions_result body st) = completed_notifications st"
  by (simp_all add: loadSavedSessions_result_def loadSavedSessions_failed_keeps ui_emit
        emit_keeps completed_notifications_emit completed_notifications_updates Let_def
        split: option.splits jsval.splits)

lemma loadSavedSessions_keeps:
  "intervals (loadSavedSessions r1 r2 st) = intervals st"
  "progressInterval (loadSavedSessions r1 r2 st) = progressInterval st"
  "ls_currentSessionId (loadSavedSessions r1 r2 st) = ls_currentSessionId st"
  "completed_notifications (loadSavedSessions r1 r2 st) = completed_notifications st"
  by (simp_all add: loadSavedSessions_def Let_def loadSavedSessions_result_keeps
        loadSavedSessions_failed_keeps emit_keeps completed_notifications_emit
        split: http.splits)

lemma stopProgressMonitoring_single:
  assumes "intervals st = [(h, ProgressTimer)]" "progressInterval st = Some h"
  shows "intervals (stopProgressMonitoring st) = []"
    and "progressInterval (stopProgressMonitoring st) = None"
    and "ls_currentSessionId (stopProgressMonitoring st) = ls_currentSessionId st"
    and "completed_notifications (stopProgressMonitoring st) = completed_notifications st"
  using assms
  by (simp_all add: stopProgressMonitoring_def clearInterval_def completed_notifications_def)

lemma completion_with_single_timer:
  assumes "intervals st = [(h, ProgressTimer)]" "progressInterval st = Some h"
    "json_of resp = Some data" "prop_of data ''success'' = Some success" "truthy success"
    "truthy (get_prop data ''completed'')"
  shows "intervals (progressTimerFires h resp lr1 lr2 st) = []
    \<and> progressInterval (progressTimerFires h resp lr1 lr2 st) = None
    \<and> ls_currentSessionId (progressTimerFires h resp lr1 lr2 st) = None
    \<and> completed_notifications (progressTimerFires h resp lr1 lr2 st)
        = Suc (completed_notifications st)
    \<and> progressTimerFires h resp' lr1' lr2' (progressTimerFires h resp lr1 lr2 st)
        = progressTimerFires h resp lr1 lr2 st"
proof -
  let ?st2 = "updateProgress (get_prop data ''percentage'') (get_prop data ''current_step'')
     (get_prop data ''total_steps'') (get_prop data ''estimated_time'')
     (emit (Fetch ''GET'' (api_progress (id_text (currentSessionId st)))) st)"
  have st2: "intervals ?st2 = [(h, ProgressTimer)]" "progressInterval ?st2 = Some h"
    "completed_notifications ?st2 = completed_notifications st"
    using assms(1,2) by (simp_all add: updateProgress_def emit_keeps completed_notifications_emit)
  note stop = stopProgressMonitoring_single [OF st2(1,2)]
  have tick: "progressTimerFires h resp lr1 lr2 st =
     loadSavedSessions lr1 lr2
       ((updateSessionControls ''completed''
          (showProgress False
            (showNotification MsgAnalysisCompleted Success (stopProgressMonitoring ?st2))))
        \<lparr>ls_currentSessionId := None\<rparr>)"
    using assms by (simp add: progressTimerFires_def progressTick_def Let_def)
  have live: "intervals (progressTimerFires h resp lr1 lr2 st) = []"
    by (simp add: tick loadSavedSessions_keeps showNotification_def showProgress_def
          updateSessionControls_def emit_keeps stop)
  have rest: "progressInterval (progressTimerFires h resp lr1 lr2 st) = None
    \<and> ls_currentSessionId (progressTimerFires h resp lr1 lr2 st) = None
    \<and> completed_notifications (progressTimerFires h resp lr1 lr2 st)
        = Suc (completed_notifications st)"
    by (simp add: tick loadSavedSessions_keeps showNotification_def showProgress_def
          updateSessionControls_def emit_keeps stop completed_notifications_emit
          completed_notifications_updates st2)
  have again: "progressTimerFires h resp' lr1' lr2' (progressTimerFires h resp lr1 lr2 st)
        = progressTimerFires h resp lr1 lr2 st"
    using live by (simp add: progressTimerFires_def [of h resp' lr1' lr2'])
  from live rest again show ?thesis by simp
qed

text \<open>
  C8. The claim: a tick that reports completion stops the poller so that no further tick
  occurs, clears the stored marker and emits exactly one completion notification. The
  code at a page with two live timers (the defect of C2): the tick of timer 0 cancels
  the timer recorded in \<open>progressInterval\<close>, which is timer 1, so timer 0 stays live; its
  next tick polls the same session again and emits a second completion notification.
\<close>

theorem completion_with_leaked_timer:
  "ls_currentSessionId
     (progressTimerFires 0 completed_reply NetworkError NetworkError two_pollers) = None
   \<and> progress_timers
       (progressTimerFires 0 completed_reply NetworkError NetworkError two_pollers) = [0]
   \<and> completed_notifications
       (progressTimerFires 0 completed_reply NetworkError NetworkError two_pollers) = 1
   \<and> completed_notifications
       (progressTimerFires 0 completed_reply NetworkError NetworkError
         (progressTimerFires 0 completed_reply NetworkError NetworkError two_pollers)) = 2"
  by (simp add: two_pollers_eval initial_page_def progress_timers_def stopProgressMonitoring_def
        clearInterval_def progressTimerFires_def progressTick_def completed_reply_def completed_data_def json_of_def
        field_of_def get_prop_def id_text_def completed_notifications_def ui_defs default_arg_def
        Let_def loadSavedSessions_def loadSavedSessions_failed_def)

section \<open>Restoring the last session on load\<close>

lemma checkSessionStatus_status:
  assumes "json_of resp = Some result" "prop_of result ''success'' = Some success"
    "truthy success" "prop_of (get_prop result ''session'') ''status'' = Some status"
  shows "checkSessionStatus sid resp st =
     (let st1 = emit (Fetch ''GET'' (api_session_status sid)) st in
      if status = JStr ''running'' then
        showNotification MsgRestoredRunning Info
          (updateSessionControls ''running'' (startProgressMonitoring (showProgress True st1)))
      else if status = JStr ''paused'' then
        showNotification MsgFoundPaused Info (updateSessionControls ''paused'' st1)
      else if status = JStr ''completed'' then
        showNotification MsgLastCompleted Success (st1\<lparr>ls_currentSessionId := None\<rparr>)
      else if status = JStr ''error'' then showNotification MsgLastError Warning st1
      else st1)"
  using assms by (simp add: checkSessionStatus_def Let_def)

lemma status_reply_parts:
  "json_of (status_reply s) =
     Some (JObj [(''success'', JBool True), (''session'', JObj [(''status'', JStr s)])])
   \<and> prop_of (JObj [(''success'', JBool True), (''session'', JObj [(''status'', JStr s)])])
       ''success'' = Some (JBool True)
   \<and> truthy (JBool True)
   \<and> prop_of (get_prop (JObj [(''success'', JBool True), (''session'', JObj [(''status'', JStr s)])])
       ''session'') ''status'' = Some (JStr s)"
  by (simp add: status_reply_def json_of_def get_prop_def field_of_def)

text \<open>
  C3, the claim as stated, at the stored marker \<open>s1\<close> and the remote status \<open>error\<close>:
  the marker is not cleared.
\<close>

theorem restore_error_keeps_marker:
  "ls_currentSessionId (restoreLastSession (status_reply ''error'') restored_page) = Some ''s1''
   \<and> ls_currentSessionId (restoreLastSession (status_reply ''error'') restored_page) \<noteq> None"
  by (simp add: restoreLastSession_def restored_page_def initial_page_def status_reply_def
       checkSessionStatus_def json_of_def get_prop_def field_of_def ui_defs Let_def)

text \<open>
  C3, amended. On load the stored marker is read. Without a marker no request is made.
  With a marker \<open>sid\<close> the status of \<open>sid\<close> is fetched and, when the answer reports
  success: \<open>running\<close> shows the progress area, starts a polling timer, updates the
  controls and emits an informational notice; \<open>paused\<close> updates the controls, emits an
  informational notice and starts no timer; \<open>completed\<close> clears the marker and emits a
  success notice; \<open>error\<close> emits a warning and leaves the marker in place; any other
  status does nothing more than the request.
\<close>

theorem restoreLastSession_branches:
  "(\<not> truthy_id (ls_currentSessionId st) \<longrightarrow> restoreLastSession resp st = restoreFormData st)
   \<and> (ls_currentSessionId st = Some sid \<and> sid \<noteq> [] \<and> json_of resp = Some result
       \<and> prop_of result ''success'' = Some success \<and> truthy success
       \<and> prop_of (get_prop result ''session'') ''status'' = Some status \<longrightarrow>
       (status = JStr ''running'' \<longrightarrow>
          restoreLastSession resp st =
            st\<lparr>currentSessionId := Some sid,
               progressInterval := Some (next_handle st),
               intervals := intervals st @ [(next_handle st, ProgressTimer)],
               next_handle := Suc (next_handle st),
               trace := trace st @ [Fetch ''GET'' (api_session_status sid),
                  ShowProgress True, UpdateSessionControls ''running'',
                  Notify Info MsgRestoredRunning, RestoreFormData]\<rparr>)
       \<and> (status = JStr ''paused'' \<longrightarrow>
          restoreLastSession resp st =
            st\<lparr>currentSessionId := Some sid,
               trace := trace st @ [Fetch ''GET'' (api_session_status sid),
                  UpdateSessionControls ''paused'', Notify Info MsgFoundPaused,
                  RestoreFormData]\<rparr>)
       \<and> (status = JStr ''completed'' \<longrightarrow>
          restoreLastSession resp st =
            st\<lparr>currentSessionId := Some sid, ls_currentSessionId := None,
               trace := trace st @ [Fetch ''GET'' (api_session_status sid),
                  Notify Success MsgLastCompleted, RestoreFormData]\<rparr>)
       \<and> (status = JStr ''error'' \<longrightarrow>
          restoreLastSession resp st =
            st\<lparr>currentSessionId := Some sid,
               trace := trace st @ [Fetch ''GET'' (api_session_status sid),
                  Notify Warning MsgLastError, RestoreFormData]\<rparr>)
       \<and> (status \<noteq> JStr ''running'' \<and> status \<noteq> JStr ''paused''
           \<and> status \<noteq> JStr ''completed'' \<and> status \<noteq> JStr ''error'' \<longrightarrow>
          restoreLastSession resp st =
            st\<lparr>currentSessionId := Some sid,
               trace := trace st @ [Fetch ''GET'' (api_session_status sid),
                  RestoreFormData]\<rparr>))"
proof -
  have absent: "\<not> truthy_id (ls_currentSessionId st) \<longrightarrow>
      restoreLastSession resp st = restoreFormData st"
    by (simp add: restoreLastSession_def truthy_id_def split: option.splits)
  have present: "ls_currentSessionId st = Some sid \<and> sid \<noteq> [] \<and> json_of resp = Some result
       \<and> prop_of result ''success'' = Some success \<and> truthy success
       \<and> prop_of (get_prop result ''session'') ''status'' = Some status \<longrightarrow>
       restoreLastSession resp st =
         restoreFormData
           (let st1 = emit (Fetch ''GET'' (api_session_status sid))
                        (st\<lparr>currentSessionId := Some sid\<rparr>) in
            if status = JStr ''running'' then
              showNotification MsgRestoredRunning Info
                (updateSessionControls ''running''
                  (startProgressMonitoring (showProgress True st1)))
            else if status = JStr ''paused'' then
              showNotification MsgFoundPaused Info (updateSessionControls ''paused'' st1)
            else if status = JStr ''completed'' then
              showNotification MsgLastCompleted Success (st1\<lparr>ls_currentSessionId := None\<rparr>)
            else if status = JStr ''error'' then showNotification MsgLastError Warning st1
            else st1)"
    by (simp add: restoreLastSession_def checkSessionStatus_status)
  from absent present show ?thesis
    by (simp add: Let_def ui_defs startProgressMonitoring_active truthy_id_def)
qed

theorem restoreLastSession_branches_witness:
  "ls_currentSessionId restored_page = Some ''s1''
   \<and> \<not> truthy_id (ls_currentSessionId initial_page)
   \<and> network_calls (restoreLastSession (status_reply ''running'') initial_page) = []
   \<and> progress_timers (restoreLastSession (status_reply ''running'') restored_page) = [0]
   \<and> progress_timers (restoreLastSession (status_reply ''paused'') restored_page) = []
   \<and> ls_currentSessionId (restoreLastSession (status_reply ''paused'') restored_page) = Some ''s1''
   \<and> ls_currentSessionId (restoreLastSession (status_reply ''completed'') restored_page) = None
   \<and> trace (restoreLastSession (status_reply ''error'') restored_page) =
       [Fetch ''GET'' (api_session_status ''s1''), Notify Warning MsgLastError, RestoreFormData]
   \<and> trace (restoreLastSession (status_reply ''saved'') restored_page) =
       [Fetch ''GET'' (api_session_status ''s1''), RestoreFormData]"
proof -
  have m: "ls_currentSessionId restored_page = Some ''s1''" "''s1'' \<noteq> []"
    by (simp_all add: restored_page_def initial_page_def)
  have n: "\<not> truthy_id (ls_currentSessionId initial_page)"
    by (simp add: initial_page_def truthy_id_def)
  note t = restoreLastSession_branches
  from t [where st = initial_page and resp = "status_reply ''running''"] n
  have a: "restoreLastSession (status_reply ''running'') initial_page
             = restoreFormData initial_page"
    by blast
  from t [where st = restored_page and sid = "''s1''" and resp = "status_reply ''running''"
            and status = "JStr ''running''"]
    m status_reply_parts [of "''running''"]
  have r: "restoreLastSession (status_reply ''running'') restored_page =
     restored_page\<lparr>currentSessionId := Some ''s1'',
        progressInterval := Some (next_handle restored_page),
        intervals := intervals restored_page @ [(next_handle restored_page, ProgressTimer)],
        next_handle := Suc (next_handle restored_page),
        trace := trace restored_page @ [Fetch ''GET'' (api_session_status ''s1''),
           ShowProgress True, UpdateSessionControls ''running'',
           Notify Info MsgRestoredRunning, RestoreFormData]\<rparr>"
    by blast
  from t [where st = restored_page and sid = "''s1''" and resp = "status_reply ''paused''"
            and status = "JStr ''paused''"]
    m status_reply_parts [of "''paused''"]
  have p: "restoreLastSession (status_reply ''paused'') restored_page =
     restored_page\<lparr>currentSessionId := Some ''s1'',
        trace := trace restored_page @ [Fetch ''GET'' (api_session_status ''s1''),
           UpdateSessionControls ''paused'', Notify Info MsgFoundPaused, RestoreFormData]\<rparr>"
    by blast
  from t [where st = restored_page and sid = "''s1''" and resp = "status_reply ''completed''"
            and status = "JStr ''completed''"]
    m status_reply_parts [of "''completed''"]
  have c: "restoreLastSession (status_reply ''completed'') restored_page =
     restored_page\<lparr>currentSessionId := Some ''s1'', ls_currentSessionId := None,
        trace := trace restored_page @ [Fetch ''GET'' (api_session_status ''s1''),
           Notify Success MsgLastCompleted, RestoreFormData]\<rparr>"
    by blast
  from t [where st = restored_page and sid = "''s1''" and resp = "status_reply ''error''"
            and status = "JStr ''error''"]
    m status_reply_parts [of "''error''"]
  have e: "restoreLastSession (status_reply ''error'') restored_page =
     restored_page\<lparr>currentSessionId := Some ''s1'',
        trace := trace restored_page @ [Fetch ''GET'' (api_session_status ''s1''),
           Notify Warning MsgLastError, RestoreFormData]\<rparr>"
    by blast
  have other: "JStr ''saved'' \<noteq> JStr ''running'' \<and> JStr ''saved'' \<noteq> JStr ''paused''
     \<and> JStr ''saved'' \<noteq> JStr ''completed'' \<and> JStr ''saved'' \<noteq> JStr ''error''"
    by simp
  from t [where st = restored_page and sid = "''s1''" and resp = "status_reply ''saved''"
            and status = "JStr ''saved''" and success = "JBool True"
            and result = "JObj [(''success'', JBool True),
                                (''session'', JObj [(''status'', JStr ''saved'')])]"]
    m status_reply_parts [of "''saved''"] other
  have o: "restoreLastSession (status_reply ''saved'') restored_page =
     restored_page\<lparr>currentSessionId := Some ''s1'',
        trace := trace restored_page @ [Fetch ''GET'' (api_session_status ''s1''),
           RestoreFormData]\<rparr>"
    by simp
  show ?thesis
    unfolding a r p c e o
    by (simp add: restored_page_def initial_page_def progress_timers_def truthy_id_def
          network_calls_def restoreFormData_def emit_def)
qed

section \<open>The poll-result merge of pollProgress\<close>

lemma persistence_saveSession_store:
  "savedSessions (persistence_saveSession sid data now st) =
     (savedSessions st)(sid \<mapsto> set_field (set_field data ''lastSaved'' (JStr now))
                                  ''progress'' (js_or (field_of data ''progress'') (JNum 0)))"
  by (simp add: persistence_saveSession_def saveSessions_def ui_defs)

lemma persistence_saveSession_persisted:
  "ls_arqv30_analyses (persistence_saveSession sid data now st) =
     Some (\<lambda>k. map_option to_json (savedSessions (persistence_saveSession sid data now st) k))"
  by (simp add: persistence_saveSession_def saveSessions_def ui_defs)

lemma persistence_saveSession_trace:
  "trace (persistence_saveSession sid data now st) = trace st @ [UpdateSessionsList]"
  by (simp add: persistence_saveSession_def saveSessions_def ui_defs)

lemma stopAutoSave_keeps:
  "savedSessions (stopAutoSave st) = savedSessions st"
  "ls_arqv30_analyses (stopAutoSave st) = ls_arqv30_analyses st"
  "trace (stopAutoSave st) = trace st"
  "poll_timeouts (stopAutoSave st) = poll_timeouts st"
  "currentAnalysisId (stopAutoSave st) = currentAnalysisId st"
  by (simp_all add: stopAutoSave_def clearInterval_def split: option.splits)

lemma pollProgress_success:
  assumes "currentAnalysisId st = Some sid" "sid \<noteq> []"
    "json_of resp = Some data" "prop_of data ''success'' = Some success" "truthy success"
    "\<not> dom_progress_text st \<or> is_number (get_prop data ''percentage'')"
  shows "pollProgress resp now st =
     (let st1 = emit (Fetch ''GET'' (api_progress sid)) st;
          st2 = emit (UpdateProgressUI (get_prop data ''percentage'')
                        (get_prop data ''current_step'')) st1;
          st3 = persistence_saveSession sid (poll_snapshot (formData st) data) now st2
      in if truthy (get_prop data ''completed'') then
           (stopAutoSave (showResults (get_prop data ''results'') st3))
              \<lparr>isAnalysisRunning := False, currentAnalysisId := None\<rparr>
         else if isAnalysisRunning st then st3\<lparr>poll_timeouts := Suc (poll_timeouts st3)\<rparr>
         else st3)"
proof -
  let ?st1 = "emit (Fetch ''GET'' (api_progress sid)) st"
  let ?ui = "updateProgressUI (get_prop data ''percentage'') (get_prop data ''current_step'') ?st1"
  have ok: "snd ?ui"
    using assms(6) by (auto simp add: updateProgressUI_def emit_def)
  have st2: "fst ?ui =
     emit (UpdateProgressUI (get_prop data ''percentage'') (get_prop data ''current_step'')) ?st1"
    by (simp add: updateProgressUI_def)
  have run: "isAnalysisRunning (persistence_saveSession sid d now (fst ?ui)) = isAnalysisRunning st"
    for d
    by (simp add: persistence_saveSession_def saveSessions_def updateSessionsList_def
          updateProgressUI_def emit_def)
  have form: "getFormData (fst ?ui) = formData st"
    by (simp add: getFormData_def updateProgressUI_def emit_def)
  show ?thesis
    using assms(1-5) ok
    by (simp add: pollProgress_def Let_def run form) (simp add: st2)
qed

lemma poll_snapshot_fields:
  "field_of (poll_snapshot form data) ''progress'' = get_prop data ''percentage''"
  "k \<noteq> ''progress'' \<Longrightarrow> k \<noteq> ''status'' \<Longrightarrow> k \<noteq> ''current_step'' \<Longrightarrow> k \<noteq> ''results'' \<Longrightarrow>
     field_of (poll_snapshot form data) k = field_of form k"
  by (simp_all add: poll_snapshot_def field_of_set_field)

text \<open>
  C4, the claim as stated, at a page polling \<open>s1\<close>: the registry holds a snapshot with
  \<open>segmento = fitness\<close> and \<open>completed_steps = [1]\<close>, the form now reads \<open>saude\<close>, and the
  backend answers with \<open>percentage: 40\<close> and \<open>completed_steps: [1, 2]\<close>. After the tick
  the stored snapshot has the progress of the answer, but its \<open>segmento\<close> is the form's
  and it has no \<open>completed_steps\<close> at all.
\<close>

theorem poll_merge_rebuilds_from_form:
  "map_option (\<lambda>snap. field_of snap ''segmento'') (savedSessions cached_page ''s1'')
     = Some (JStr ''fitness'')
   \<and> map_option (\<lambda>data. get_prop data ''completed_steps'') (json_of running_reply)
     = Some (JArr [JNum 1, JNum 2])
   \<and> savedSessions (pollProgress running_reply ''2024-01-02T00:00:00.000Z'' cached_page) ''s1''
     = Some [(''segmento'', JStr ''saude''), (''produto'', JStr ''app''),
             (''progress'', JNum 40), (''status'', JStr ''running''),
             (''current_step'', JStr ''step2''), (''results'', JUndefined),
             (''lastSaved'', JStr ''2024-01-02T00:00:00.000Z'')]
   \<and> map_option (\<lambda>snap. field_of snap ''segmento'')
        (savedSessions (pollProgress running_reply ''2024-01-02T00:00:00.000Z'' cached_page) ''s1'')
     = Some (JStr ''saude'')
   \<and> map_option (\<lambda>snap. field_of snap ''completed_steps'')
        (savedSessions (pollProgress running_reply ''2024-01-02T00:00:00.000Z'' cached_page) ''s1'')
     = Some JUndefined"
  by (simp add: pollProgress_def cached_page_def cached_snapshot_def initial_page_def running_reply_def running_data_def json_of_def
        get_prop_def field_of_def updateProgressUI_def is_number_def emit_def getFormData_def
        poll_snapshot_def set_field_def persistence_saveSession_def saveSessions_def
        updateSessionsList_def js_or_def Let_def)

text \<open>
  C4, amended. On every poll tick of \<open>pollProgress\<close> that the backend answers with
  success (and whose percentage the progress text can render), the snapshot stored for
  the polled analysis is replaced by one rebuilt from the form as it is at the tick and
  from the answer: its progress is the remote percentage (0 when that is falsy), its
  status, current step and results are the answer's, every other field but \<open>lastSaved\<close>
  is the form's, and neither the cached snapshot nor a \<open>completed_steps\<close> of the answer
  is read. The other entries of the registry are untouched, the registry is written to
  \<open>localStorage\<close>, and the progress display is updated before the snapshot is stored,
  all within the tick.
\<close>

theorem pollProgress_rebuilds_snapshot:
  assumes "currentAnalysisId st = Some sid" "sid \<noteq> []"
    "json_of resp = Some data" "prop_of data ''success'' = Some success" "truthy success"
    "\<not> dom_progress_text st \<or> is_number (get_prop data ''percentage'')"
  shows
   "savedSessions (pollProgress resp now st) sid =
       Some (set_field (set_field (poll_snapshot (formData st) data) ''lastSaved'' (JStr now))
               ''progress'' (js_or (get_prop data ''percentage'') (JNum 0)))
    \<and> field_of (set_field (set_field (poll_snapshot (formData st) data) ''lastSaved'' (JStr now))
               ''progress'' (js_or (get_prop data ''percentage'') (JNum 0))) ''progress''
        = js_or (get_prop data ''percentage'') (JNum 0)
    \<and> (\<forall>k. k \<noteq> ''progress'' \<and> k \<noteq> ''status'' \<and> k \<noteq> ''current_step'' \<and> k \<noteq> ''results''
            \<and> k \<noteq> ''lastSaved'' \<longrightarrow>
          field_of (set_field (set_field (poll_snapshot (formData st) data) ''lastSaved'' (JStr now))
               ''progress'' (js_or (get_prop data ''percentage'') (JNum 0))) k
            = field_of (formData st) k)
    \<and> (\<forall>k. k \<noteq> sid \<longrightarrow> savedSessions (pollProgress resp now st) k = savedSessions st k)
    \<and> ls_arqv30_analyses (pollProgress resp now st) =
        Some (\<lambda>k. map_option to_json (savedSessions (pollProgress resp now st) k))
    \<and> take (length (trace st) + 3) (trace (pollProgress resp now st)) =
        trace st @ [Fetch ''GET'' (api_progress sid),
                    UpdateProgressUI (get_prop data ''percentage'') (get_prop data ''current_step''),
                    UpdateSessionsList]"
proof -
  let ?st' = "pollProgress resp now st"
  let ?snap = "set_field (set_field (poll_snapshot (formData st) data) ''lastSaved'' (JStr now))
               ''progress'' (js_or (get_prop data ''percentage'') (JNum 0))"
  note eq = pollProgress_success [OF assms, of now]
  have store: "savedSessions ?st' = (savedSessions st)(sid \<mapsto> ?snap)"
    by (simp add: eq Let_def stopAutoSave_keeps showResults_def emit_def
          persistence_saveSession_store poll_snapshot_fields)
  have fields: "field_of ?snap ''progress'' = js_or (get_prop data ''percentage'') (JNum 0)"
    "\<forall>k. k \<noteq> ''progress'' \<and> k \<noteq> ''status'' \<and> k \<noteq> ''current_step'' \<and> k \<noteq> ''results''
            \<and> k \<noteq> ''lastSaved'' \<longrightarrow> field_of ?snap k = field_of (formData st) k"
    by (simp_all add: field_of_set_field poll_snapshot_fields)
  have persisted: "ls_arqv30_analyses ?st' = Some (\<lambda>k. map_option to_json (savedSessions ?st' k))"
    by (simp add: eq Let_def stopAutoSave_keeps showResults_def emit_def
          persistence_saveSession_persisted)
  have tr: "take (length (trace st) + 3) (trace ?st') =
        trace st @ [Fetch ''GET'' (api_progress sid),
                    UpdateProgressUI (get_prop data ''percentage'') (get_prop data ''current_step''),
                    UpdateSessionsList]"
    by (simp add: eq Let_def stopAutoSave_keeps showResults_def emit_def
          persistence_saveSession_trace)
  from store fields persisted tr show ?thesis by simp
qed

theorem pollProgress_rebuilds_snapshot_witness:
  "currentAnalysisId cached_page = Some ''s1'' \<and> ''s1'' \<noteq> []
   \<and> json_of running_reply = Some running_data
   \<and> prop_of running_data ''success'' = Some (JBool True) \<and> truthy (JBool True)
   \<and> is_number (get_prop running_data ''percentage'')
   \<and> savedSessions (pollProgress running_reply ''2024-01-02T00:00:00.000Z'' cached_page) ''s1''
       = Some [(''segmento'', JStr ''saude''), (''produto'', JStr ''app''),
               (''progress'', JNum 40), (''status'', JStr ''running''),
               (''current_step'', JStr ''step2''), (''results'', JUndefined),
               (''lastSaved'', JStr ''2024-01-02T00:00:00.000Z'')]
   \<and> take 3 (trace (pollProgress running_reply ''2024-01-02T00:00:00.000Z'' cached_page))
       = [Fetch ''GET'' (api_progress ''s1''), UpdateProgressUI (JNum 40) (JStr ''step2''),
          UpdateSessionsList]"
proof -
  have h: "currentAnalysisId cached_page = Some ''s1''" "''s1'' \<noteq> []"
    "json_of running_reply = Some running_data"
    "prop_of running_data ''success'' = Some (JBool True)" "truthy (JBool True)"
    by (simp_all add: cached_page_def cached_snapshot_def initial_page_def running_reply_def running_data_def
          json_of_def field_of_def)
  have n: "is_number (get_prop running_data ''percentage'')"
    by (simp add: running_data_def get_prop_def field_of_def is_number_def)
  then have d: "\<not> dom_progress_text cached_page \<or> is_number (get_prop running_data ''percentage'')"
    by simp
  note t = pollProgress_rebuilds_snapshot [OF h d, of "''2024-01-02T00:00:00.000Z''"]
  have form: "formData cached_page = [(''segmento'', JStr ''saude''), (''produto'', JStr ''app'')]"
    "trace cached_page = []"
    by (simp_all add: cached_page_def cached_snapshot_def initial_page_def)
  from t have a:
    "savedSessions (pollProgress running_reply ''2024-01-02T00:00:00.000Z'' cached_page) ''s1''
       = Some (set_field (set_field (poll_snapshot (formData cached_page) running_data)
                 ''lastSaved'' (JStr ''2024-01-02T00:00:00.000Z''))
               ''progress'' (js_or (get_prop running_data ''percentage'') (JNum 0)))"
    by blast
  from t have b:
    "take (length (trace cached_page) + 3)
       (trace (pollProgress running_reply ''2024-01-02T00:00:00.000Z'' cached_page)) =
        trace cached_page @ [Fetch ''GET'' (api_progress ''s1''),
           UpdateProgressUI (get_prop running_data ''percentage'')
             (get_prop running_data ''current_step''),
           UpdateSessionsList]"
    by blast
  have v: "set_field (set_field (poll_snapshot (formData cached_page) running_data)
                 ''lastSaved'' (JStr ''2024-01-02T00:00:00.000Z''))
               ''progress'' (js_or (get_prop running_data ''percentage'') (JNum 0))
     = [(''segmento'', JStr ''saude''), (''produto'', JStr ''app''),
               (''progress'', JNum 40), (''status'', JStr ''running''),
               (''current_step'', JStr ''step2''), (''results'', JUndefined),
               (''lastSaved'', JStr ''2024-01-02T00:00:00.000Z'')]"
    by (simp add: form poll_snapshot_def running_data_def get_prop_def field_of_def
          set_field_def js_or_def)
  have w: "get_prop running_data ''percentage'' = JNum 40"
    "get_prop running_data ''current_step'' = JStr ''step2''"
    by (simp_all add: running_data_def get_prop_def field_of_def)
  note a' = a [unfolded v]
  from b have b': "take 3
       (trace (pollProgress running_reply ''2024-01-02T00:00:00.000Z'' cached_page)) =
        [Fetch ''GET'' (api_progress ''s1''), UpdateProgressUI (JNum 40) (JStr ''step2''),
         UpdateSessionsList]"
    by (simp add: w form)
  from h n a' b' show ?thesis by simp
qed

section \<open>Failures during polling\<close>




lemma pollProgress_transport_failure:
  "currentAnalysisId st = Some sid \<Longrightarrow> sid \<noteq> [] \<Longrightarrow> json_of resp = None \<Longrightarrow>
   pollProgress resp now st = pollProgress_failed (emit (Fetch ''GET'' (api_progress sid)) st)"
  by (simp add: pollProgress_def Let_def)








section \<open>Continuing a stored analysis\<close>

lemma startAutoSave_keeps:
  "trace (startAutoSave st) = trace st"
  "currentAnalysisId (startAutoSave st) = currentAnalysisId st"
  by (simp_all add: startAutoSave_def setInterval_def clearInterval_def Let_def
        split: option.splits)

lemma pollProgress_failed_trace:
  "trace (pollProgress_failed st) = trace st @ [ConsoleError, Alert Error MsgMonitorFailed]"
  by (simp add: pollProgress_failed_def stopAutoSave_keeps ui_defs)

lemma pollProgress_first_event:
  assumes "currentAnalysisId st = Some sid" "sid \<noteq> []"
  shows "take (Suc (length (trace st))) (trace (pollProgress resp now st)) =
           trace st @ [Fetch ''GET'' (api_progress sid)]"
  using assms
  by (simp add: pollProgress_def Let_def pollProgress_failed_trace persistence_saveSession_trace
        stopAutoSave_keeps updateProgressUI_def ui_defs split: option.splits)

lemma pollProgress_trace_prefix:
  "take (length (trace st)) (trace (pollProgress resp now st)) = trace st"
  by (simp add: pollProgress_def Let_def pollProgress_failed_trace persistence_saveSession_trace
        stopAutoSave_keeps updateProgressUI_def ui_defs split: option.splits)

lemma checkAnalysisStatus_first_event:
  "take (Suc (length (trace st))) (trace (checkAnalysisStatus sid resp pollResp now st)) =
     trace st @ [Fetch ''GET'' (api_analysis_status sid)]"
proof -
  have poll: "take (Suc (length (trace st))) (trace (pollProgress pollResp now s)) =
      trace st @ [Fetch ''GET'' (api_analysis_status sid)]"
    if "take (Suc (length (trace st))) (trace s) = trace st @ [Fetch ''GET'' (api_analysis_status sid)]"
       "Suc (length (trace st)) \<le> length (trace s)" for s
    using take_of_prefix [OF pollProgress_trace_prefix [of s pollResp now] that(2)] that(1) by simp
  show ?thesis
    by (simp add: checkAnalysisStatus_def Let_def checkAnalysisStatus_failed_def
        persistence_saveSession_trace stopAutoSave_keeps updateProgressUI_def ui_defs
        startAutoSave_keeps poll split: option.splits)
qed

lemma checkAnalysisStatus_running:
  assumes "json_of resp = Some data" "prop_of data ''success'' = Some success" "truthy success"
    "get_prop data ''status'' = JStr ''running''" "sid \<noteq> []"
    "is_number (js_or (get_prop data ''progress'') (JNum 0))"
  shows "take (length (trace st) + 3) (trace (checkAnalysisStatus sid resp pollResp now st)) =
     trace st @ [Fetch ''GET'' (api_analysis_status sid),
                 UpdateProgressUI (js_or (get_prop data ''progress'') (JNum 0))
                   (js_or (get_prop data ''current_step'') (JStr ''Continuando...'')),
                 Fetch ''GET'' (api_progress sid)]"
proof -
  let ?x = "startAutoSave
     (emit (UpdateProgressUI (js_or (get_prop data ''progress'') (JNum 0))
              (js_or (get_prop data ''current_step'') (JStr ''Continuando...'')))
        ((emit (Fetch ''GET'' (api_analysis_status sid)) st)
           \<lparr>currentAnalysisId := Some sid, isAnalysisRunning := True\<rparr>))"
  have run: "checkAnalysisStatus sid resp pollResp now st = pollProgress pollResp now ?x"
    using assms by (simp add: checkAnalysisStatus_def Let_def updateProgressUI_def)
  have cur: "currentAnalysisId ?x = Some sid"
    by (simp add: startAutoSave_keeps emit_def)
  have tr: "trace ?x = trace st @ [Fetch ''GET'' (api_analysis_status sid),
                 UpdateProgressUI (js_or (get_prop data ''progress'') (JNum 0))
                   (js_or (get_prop data ''current_step'') (JStr ''Continuando...''))]"
    by (simp add: startAutoSave_keeps emit_def)
  from pollProgress_first_event [OF cur assms(5), of pollResp now] show ?thesis
    by (simp add: run tr numeral_3_eq_3)
qed

lemma continueAnalysis_cached:
  assumes "getSession st sid = Some snap" "field_of snap ''progress'' = JNum 100"
    "truthy (field_of snap ''results'')"
  shows "trace (continueAnalysis sid resp pollResp now st)
           = trace st @ [ShowResults (field_of snap ''results'')]"
    and "intervals (continueAnalysis sid resp pollResp now st) = intervals st"
    and "poll_timeouts (continueAnalysis sid resp pollResp now st) = poll_timeouts st"
  using assms by (simp_all add: continueAnalysis_def Let_def ui_defs)

lemma continueAnalysis_uncached:
  assumes "getSession st sid = Some snap"
    "\<not> (field_of snap ''progress'' = JNum 100 \<and> truthy (field_of snap ''results''))"
  shows "continueAnalysis sid resp pollResp now st =
     checkAnalysisStatus sid resp pollResp now
       (st\<lparr>formData :=
             restore_input snap ''objetivo_receita''
               (restore_input snap ''preco''
                 (restore_input snap ''publico''
                   (restore_input snap ''produto''
                     (restore_input snap ''segmento'' (formData st))))),
           currentAnalysisId := Some sid\<rparr>)"
  using assms by (auto simp add: continueAnalysis_def Let_def)

lemma continueAnalysis_missing:
  assumes "getSession st sid = None"
  shows "trace (continueAnalysis sid resp pollResp now st)
           = trace st @ [Alert Error MsgSessionNotFound]"
  using assms by (simp add: continueAnalysis_def ui_defs)

text \<open>
  C5. When the stored snapshot of a session has progress 100 and truthy results,
  \<open>continueAnalysis\<close> makes no network request and hands the stored results to
  \<open>showResults\<close>, starting no timer. A request is made only for a stored session
  without that pair; then the first thing it does is ask the status endpoint, and when
  the backend reports a running analysis it goes on to poll the progress endpoint.
\<close>

theorem continueAnalysis_cached_results:
  "(getSession st sid = Some snap \<and> field_of snap ''progress'' = JNum 100
      \<and> truthy (field_of snap ''results'') \<longrightarrow>
        network_calls (continueAnalysis sid resp pollResp now st) = network_calls st
        \<and> trace (continueAnalysis sid resp pollResp now st)
            = trace st @ [ShowResults (field_of snap ''results'')]
        \<and> intervals (continueAnalysis sid resp pollResp now st) = intervals st
        \<and> poll_timeouts (continueAnalysis sid resp pollResp now st) = poll_timeouts st)
   \<and> (network_calls (continueAnalysis sid resp pollResp now st) \<noteq> network_calls st \<longrightarrow>
        (\<exists>snap'. getSession st sid = Some snap'
           \<and> \<not> (field_of snap' ''progress'' = JNum 100 \<and> truthy (field_of snap' ''results''))))
   \<and> (getSession st sid = Some snap
       \<and> \<not> (field_of snap ''progress'' = JNum 100 \<and> truthy (field_of snap ''results'')) \<longrightarrow>
        take (Suc (length (trace st))) (trace (continueAnalysis sid resp pollResp now st))
          = trace st @ [Fetch ''GET'' (api_analysis_status sid)])
   \<and> (getSession st sid = Some snap
       \<and> \<not> (field_of snap ''progress'' = JNum 100 \<and> truthy (field_of snap ''results''))
       \<and> sid \<noteq> [] \<and> json_of resp = Some data \<and> prop_of data ''success'' = Some success
       \<and> truthy success \<and> get_prop data ''status'' = JStr ''running''
       \<and> is_number (js_or (get_prop data ''progress'') (JNum 0)) \<longrightarrow>
        take (length (trace st) + 3) (trace (continueAnalysis sid resp pollResp now st))
          = trace st @ [Fetch ''GET'' (api_analysis_status sid),
                 UpdateProgressUI (js_or (get_prop data ''progress'') (JNum 0))
                   (js_or (get_prop data ''current_step'') (JStr ''Continuando...'')),
                 Fetch ''GET'' (api_progress sid)])"
proof -
  let ?c = "continueAnalysis sid resp pollResp now st"
  have cached: "getSession st sid = Some s \<Longrightarrow> field_of s ''progress'' = JNum 100 \<Longrightarrow>
      truthy (field_of s ''results'') \<Longrightarrow>
        network_calls ?c = network_calls st
        \<and> trace ?c = trace st @ [ShowResults (field_of s ''results'')]
        \<and> intervals ?c = intervals st \<and> poll_timeouts ?c = poll_timeouts st" for s
    using continueAnalysis_cached [of st sid s resp pollResp now]
    by (simp add: network_calls_def)
  have missing: "getSession st sid = None \<Longrightarrow> network_calls ?c = network_calls st"
    using continueAnalysis_missing [of st sid resp pollResp now]
    by (simp add: network_calls_def)
  have only: "network_calls ?c \<noteq> network_calls st \<longrightarrow>
        (\<exists>snap'. getSession st sid = Some snap'
           \<and> \<not> (field_of snap' ''progress'' = JNum 100 \<and> truthy (field_of snap' ''results'')))"
  proof
    assume diff: "network_calls ?c \<noteq> network_calls st"
    show "\<exists>snap'. getSession st sid = Some snap'
           \<and> \<not> (field_of snap' ''progress'' = JNum 100 \<and> truthy (field_of snap' ''results''))"
    proof (cases "getSession st sid")
      case None
      with missing diff show ?thesis by simp
    next
      case (Some s)
      with cached [of s] diff show ?thesis by blast
    qed
  qed
  have first: "getSession st sid = Some snap
       \<and> \<not> (field_of snap ''progress'' = JNum 100 \<and> truthy (field_of snap ''results'')) \<longrightarrow>
        take (Suc (length (trace st))) (trace ?c)
          = trace st @ [Fetch ''GET'' (api_analysis_status sid)]"
  proof
    assume h: "getSession st sid = Some snap
       \<and> \<not> (field_of snap ''progress'' = JNum 100 \<and> truthy (field_of snap ''results''))"
    then have eq: "?c = checkAnalysisStatus sid resp pollResp now
       (st\<lparr>formData :=
             restore_input snap ''objetivo_receita''
               (restore_input snap ''preco''
                 (restore_input snap ''publico''
                   (restore_input snap ''produto''
                     (restore_input snap ''segmento'' (formData st))))),
           currentAnalysisId := Some sid\<rparr>)"
      using continueAnalysis_uncached [of st sid snap resp pollResp now] by blast
    show "take (Suc (length (trace st))) (trace ?c)
          = trace st @ [Fetch ''GET'' (api_analysis_status sid)]"
      unfolding eq
      using checkAnalysisStatus_first_event
        [of "st\<lparr>formData :=
             restore_input snap ''objetivo_receita''
               (restore_input snap ''preco''
                 (restore_input snap ''publico''
                   (restore_input snap ''produto''
                     (restore_input snap ''segmento'' (formData st))))),
           currentAnalysisId := Some sid\<rparr>" sid resp pollResp now]
      by simp
  qed
  have polls: "getSession st sid = Some snap
       \<and> \<not> (field_of snap ''progress'' = JNum 100 \<and> truthy (field_of snap ''results''))
       \<and> sid \<noteq> [] \<and> json_of resp = Some data \<and> prop_of data ''success'' = Some success
       \<and> truthy success \<and> get_prop data ''status'' = JStr ''running''
       \<and> is_number (js_or (get_prop data ''progress'') (JNum 0)) \<longrightarrow>
        take (length (trace st) + 3) (trace ?c)
          = trace st @ [Fetch ''GET'' (api_analysis_status sid),
                 UpdateProgressUI (js_or (get_prop data ''progress'') (JNum 0))
                   (js_or (get_prop data ''current_step'') (JStr ''Continuando...'')),
                 Fetch ''GET'' (api_progress sid)]"
  proof
    assume h: "getSession st sid = Some snap
       \<and> \<not> (field_of snap ''progress'' = JNum 100 \<and> truthy (field_of snap ''results''))
       \<and> sid \<noteq> [] \<and> json_of resp = Some data \<and> prop_of data ''success'' = Some success
       \<and> truthy success \<and> get_prop data ''status'' = JStr ''running''
       \<and> is_number (js_or (get_prop data ''progress'') (JNum 0))"
    then have eq: "?c = checkAnalysisStatus sid resp pollResp now
       (st\<lparr>formData :=
             restore_input snap ''objetivo_receita''
               (restore_input snap ''preco''
                 (restore_input snap ''publico''
                   (restore_input snap ''produto''
                     (restore_input snap ''segmento'' (formData st))))),
           currentAnalysisId := Some sid\<rparr>)"
      using continueAnalysis_uncached [of st sid snap resp pollResp now] by blast
    from h have p: "json_of resp = Some data" "prop_of data ''success'' = Some success"
      "truthy success" "get_prop data ''status'' = JStr ''running''" "sid \<noteq> []"
      "is_number (js_or (get_prop data ''progress'') (JNum 0))"
      by simp_all
    show "take (length (trace st) + 3) (trace ?c)
          = trace st @ [Fetch ''GET'' (api_analysis_status sid),
                 UpdateProgressUI (js_or (get_prop data ''progress'') (JNum 0))
                   (js_or (get_prop data ''current_step'') (JStr ''Continuando...'')),
                 Fetch ''GET'' (api_progress sid)]"
      unfolding eq
      using checkAnalysisStatus_running [OF p,
        of "st\<lparr>formData :=
             restore_input snap ''objetivo_receita''
               (restore_input snap ''preco''
                 (restore_input snap ''publico''
                   (restore_input snap ''produto''
                     (restore_input snap ''segmento'' (formData st))))),
           currentAnalysisId := Some sid\<rparr>" pollResp now]
      by simp
  qed
  have hit: "getSession st sid = Some snap \<and> field_of snap ''progress'' = JNum 100
      \<and> truthy (field_of snap ''results'') \<longrightarrow>
        network_calls ?c = network_calls st
        \<and> trace ?c = trace st @ [ShowResults (field_of snap ''results'')]
        \<and> intervals ?c = intervals st \<and> poll_timeouts ?c = poll_timeouts st"
    using cached [of snap] by blast
  from hit only first polls show ?thesis by blast
qed

theorem continueAnalysis_cached_results_witness:
  "getSession finished_page ''s2'' = Some finished_snapshot
   \<and> field_of finished_snapshot ''progress'' = JNum 100
   \<and> truthy (field_of finished_snapshot ''results'')
   \<and> network_calls (continueAnalysis ''s2'' NetworkError NetworkError
         ''2024-01-02T00:00:00.000Z'' finished_page) = []
   \<and> trace (continueAnalysis ''s2'' NetworkError NetworkError
         ''2024-01-02T00:00:00.000Z'' finished_page)
       = [ShowResults (JObj [(''summary'', JStr ''ok'')])]
   \<and> getSession cached_page ''s1'' = Some cached_snapshot
   \<and> field_of cached_snapshot ''progress'' \<noteq> JNum 100
   \<and> network_calls (continueAnalysis ''s1'' NetworkError NetworkError
         ''2024-01-02T00:00:00.000Z'' cached_page) \<noteq> network_calls cached_page
   \<and> (\<exists>snap'. getSession cached_page ''s1'' = Some snap'
         \<and> \<not> (field_of snap' ''progress'' = JNum 100 \<and> truthy (field_of snap' ''results'')))
   \<and> take 1 (trace (continueAnalysis ''s1'' NetworkError NetworkError
         ''2024-01-02T00:00:00.000Z'' cached_page))
       = [Fetch ''GET'' (api_analysis_status ''s1'')]
   \<and> json_of analysis_running_reply = Some analysis_running_data
   \<and> prop_of analysis_running_data ''success'' = Some (JBool True)
   \<and> get_prop analysis_running_data ''status'' = JStr ''running''
   \<and> is_number (js_or (get_prop analysis_running_data ''progress'') (JNum 0))
   \<and> take 3 (trace (continueAnalysis ''s1'' analysis_running_reply NetworkError
         ''2024-01-02T00:00:00.000Z'' cached_page))
       = [Fetch ''GET'' (api_analysis_status ''s1''),
          UpdateProgressUI (JNum 10) (JStr ''step1''), Fetch ''GET'' (api_progress ''s1'')]"
proof -
  let ?now = "''2024-01-02T00:00:00.000Z''"
  note t = continueAnalysis_cached_results
  have f: "getSession finished_page ''s2'' = Some finished_snapshot"
    "field_of finished_snapshot ''progress'' = JNum 100"
    "truthy (field_of finished_snapshot ''results'')"
    "field_of finished_snapshot ''results'' = JObj [(''summary'', JStr ''ok'')]"
    "network_calls finished_page = []" "trace finished_page = []"
    by (simp_all add: getSession_def finished_page_def finished_snapshot_def initial_page_def
          field_of_def network_calls_def)
  have c: "getSession cached_page ''s1'' = Some cached_snapshot"
    "field_of cached_snapshot ''progress'' \<noteq> JNum 100"
    "trace cached_page = []" "''s1'' \<noteq> []"
    by (simp_all add: getSession_def cached_page_def cached_snapshot_def initial_page_def
          field_of_def)
  then have c2: "\<not> (field_of cached_snapshot ''progress'' = JNum 100
                     \<and> truthy (field_of cached_snapshot ''results''))"
    by simp
  have r: "json_of analysis_running_reply = Some analysis_running_data"
    "prop_of analysis_running_data ''success'' = Some (JBool True)" "truthy (JBool True)"
    "get_prop analysis_running_data ''status'' = JStr ''running''"
    "is_number (js_or (get_prop analysis_running_data ''progress'') (JNum 0))"
    "js_or (get_prop analysis_running_data ''progress'') (JNum 0) = JNum 10"
    "js_or (get_prop analysis_running_data ''current_step'') (JStr ''Continuando...'')
       = JStr ''step1''"
    by (simp_all add: analysis_running_reply_def analysis_running_data_def json_of_def
          get_prop_def field_of_def js_or_def is_number_def)
  have diff: "network_calls (continueAnalysis ''s1'' NetworkError NetworkError ?now cached_page)
      \<noteq> network_calls cached_page"
    by (simp add: continueAnalysis_def checkAnalysisStatus_def checkAnalysisStatus_failed_def
          getSession_def cached_page_def cached_snapshot_def initial_page_def field_of_def
          json_of_def network_calls_def ui_defs Let_def)
  from t [where st = finished_page and sid = "''s2''" and snap = finished_snapshot
            and resp = NetworkError and pollResp = NetworkError and now = ?now] f(1-3)
  have a: "network_calls (continueAnalysis ''s2'' NetworkError NetworkError ?now finished_page)
            = network_calls finished_page
        \<and> trace (continueAnalysis ''s2'' NetworkError NetworkError ?now finished_page)
            = trace finished_page @ [ShowResults (field_of finished_snapshot ''results'')]"
    by blast
  from t [where st = cached_page and sid = "''s1''" and resp = NetworkError
            and pollResp = NetworkError and now = ?now] diff
  have b: "\<exists>snap'. getSession cached_page ''s1'' = Some snap'
         \<and> \<not> (field_of snap' ''progress'' = JNum 100 \<and> truthy (field_of snap' ''results''))"
    by blast
  from t [where st = cached_page and sid = "''s1''" and snap = cached_snapshot
            and resp = NetworkError and pollResp = NetworkError and now = ?now] c(1) c2
  have d: "take (Suc (length (trace cached_page)))
             (trace (continueAnalysis ''s1'' NetworkError NetworkError ?now cached_page))
          = trace cached_page @ [Fetch ''GET'' (api_analysis_status ''s1'')]"
    by blast
  from t [where st = cached_page and sid = "''s1''" and snap = cached_snapshot
            and resp = analysis_running_reply and pollResp = NetworkError and now = ?now
            and data = analysis_running_data and success = "JBool True"]
    c(1,4) c2 r(1-5)
  have e: "take (length (trace cached_page) + 3)
             (trace (continueAnalysis ''s1'' analysis_running_reply NetworkError ?now cached_page))
          = trace cached_page @ [Fetch ''GET'' (api_analysis_status ''s1''),
                 UpdateProgressUI (js_or (get_prop analysis_running_data ''progress'') (JNum 0))
                   (js_or (get_prop analysis_running_data ''current_step'')
                      (JStr ''Continuando...'')),
                 Fetch ''GET'' (api_progress ''s1'')]"
    by blast
  note a' = a [unfolded f(4,5,6), simplified]
  note d' = d [unfolded c(3), simplified]
  note e' = e [unfolded c(3) r(6,7), simplified]
  from f(1-3) a' c(1,2) diff b d' r(1,2,4,5) e' show ?thesis by simp
qed

section \<open>Deleting a session\<close>

lemma persistence_deleteSession_effect:
  "savedSessions (persistence_deleteSession sid st) = (savedSessions st)(sid := None)"
  "ls_arqv30_analyses (persistence_deleteSession sid st) =
     Some (\<lambda>k. map_option to_json (((savedSessions st)(sid := None)) k))"
  "trace (persistence_deleteSession sid st) = trace st @ [UpdateSessionsList]"
  by (simp_all add: persistence_deleteSession_def saveSessions_def ui_defs)

text \<open>
  C6, the claim as stated, at the delete of the Local Session Store: \<open>deleteAnalysis\<close>
  on a registry that holds \<open>s2\<close>, confirmed by the user, removes the entry from the
  registry and from \<open>localStorage\<close> and makes no request at all, so no gateway answer
  decides the removal.
\<close>

theorem deleteAnalysis_removes_without_gateway:
  "savedSessions finished_page ''s2'' = Some finished_snapshot
   \<and> savedSessions (deleteAnalysis ''s2'' True finished_page) ''s2'' = None
   \<and> map_option (\<lambda>registry. registry ''s2'')
        (ls_arqv30_analyses (deleteAnalysis ''s2'' True finished_page)) = Some None
   \<and> network_calls (deleteAnalysis ''s2'' True finished_page) = []
   \<and> trace (deleteAnalysis ''s2'' True finished_page)
       = [ConfirmDialog, UpdateSessionsList, Alert Success MsgAnalysisDeleted]"
  by (simp add: deleteAnalysis_def persistence_deleteSession_def saveSessions_def
        finished_page_def initial_page_def network_calls_def ui_defs Let_def)

text \<open>
  C6, amended. \<open>ModernAnalysisSystem.deleteSession\<close>, once the user confirms, sends the
  gateway's delete request and removes the session from its own session list only when
  the answer reports success; with \<open>success: false\<close>, a failed request or a declined
  confirmation the list is unchanged; it never touches the Local Session Store.
  \<open>deleteAnalysis\<close>, the delete of the Local Session Store, removes the entry from the
  registry and rewrites \<open>localStorage\<close> once the user confirms, without any request.
\<close>

theorem delete_local_and_remote:
  "savedSessions (system_deleteSession sid confirmed resp st) = savedSessions st
   \<and> ls_arqv30_analyses (system_deleteSession sid confirmed resp st) = ls_arqv30_analyses st
   \<and> sessions (system_deleteSession sid confirmed resp st) =
       (if confirmed \<and> reply_success resp then AList.delete (JStr sid) (sessions st)
        else sessions st)
   \<and> network_calls (system_deleteSession sid confirmed resp st) =
       (if confirmed then network_calls st @ [Fetch ''DELETE'' (api_session sid)]
        else network_calls st)
   \<and> savedSessions (deleteAnalysis sid confirmed st) =
       (if confirmed then (savedSessions st)(sid := None) else savedSessions st)
   \<and> ls_arqv30_analyses (deleteAnalysis sid confirmed st) =
       (if confirmed then Some (\<lambda>k. map_option to_json (((savedSessions st)(sid := None)) k))
        else ls_arqv30_analyses st)
   \<and> network_calls (deleteAnalysis sid confirmed st) = network_calls st"
proof -
  have store: "savedSessions (system_deleteSession sid confirmed resp st) = savedSessions st
     \<and> ls_arqv30_analyses (system_deleteSession sid confirmed resp st) = ls_arqv30_analyses st"
    by (simp add: system_deleteSession_def Let_def ui_defs split: option.splits)
  have list: "sessions (system_deleteSession sid confirmed resp st) =
       (if confirmed \<and> reply_success resp then AList.delete (JStr sid) (sessions st)
        else sessions st)"
    by (simp add: system_deleteSession_def reply_success_def Let_def ui_defs
          split: option.splits)
  have calls: "network_calls (system_deleteSession sid confirmed resp st) =
       (if confirmed then network_calls st @ [Fetch ''DELETE'' (api_session sid)]
        else network_calls st)"
    by (simp add: system_deleteSession_def network_calls_def Let_def ui_defs
          split: option.splits)
  have local: "savedSessions (deleteAnalysis sid confirmed st) =
       (if confirmed then (savedSessions st)(sid := None) else savedSessions st)
     \<and> ls_arqv30_analyses (deleteAnalysis sid confirmed st) =
       (if confirmed then Some (\<lambda>k. map_option to_json (((savedSessions st)(sid := None)) k))
        else ls_arqv30_analyses st)
     \<and> network_calls (deleteAnalysis sid confirmed st) = network_calls st"
    by (simp add: deleteAnalysis_def persistence_deleteSession_def saveSessions_def
          network_calls_def Let_def ui_defs)
  from store list calls local show ?thesis by simp
qed

theorem delete_local_and_remote_witness:
  "reply_success success_reply \<and> \<not> reply_success refused_reply \<and> \<not> reply_success NetworkError
   \<and> sessions (system_deleteSession ''s1'' True success_reply listed_page) = []
   \<and> sessions (system_deleteSession ''s1'' True refused_reply listed_page) = sessions listed_page
   \<and> sessions (system_deleteSession ''s1'' True NetworkError listed_page) = sessions listed_page
   \<and> savedSessions (system_deleteSession ''s1'' True success_reply listed_page) ''s1''
       = Some cached_snapshot
   \<and> network_calls (system_deleteSession ''s1'' True refused_reply listed_page)
       = [Fetch ''DELETE'' (api_session ''s1'')]
   \<and> network_calls (system_deleteSession ''s1'' False refused_reply listed_page) = []
   \<and> savedSessions (deleteAnalysis ''s1'' True listed_page) ''s1'' = None
   \<and> savedSessions (deleteAnalysis ''s1'' False listed_page) ''s1'' = Some cached_snapshot
   \<and> network_calls (deleteAnalysis ''s1'' True listed_page) = []"
proof -
  have r: "reply_success success_reply" "\<not> reply_success refused_reply"
    "\<not> reply_success NetworkError"
    by (simp_all add: reply_success_def success_reply_def refused_reply_def refused_data_def
          json_of_def field_of_def)
  have p: "sessions listed_page =
      [(JStr ''s1'', JObj [(''session_id'', JStr ''s1''), (''status'', JStr ''paused'')])]"
    "savedSessions listed_page ''s1'' = Some cached_snapshot" "network_calls listed_page = []"
    by (simp_all add: listed_page_def initial_page_def network_calls_def)
  note t = delete_local_and_remote [where st = listed_page and sid = "''s1''"]
  from t [where confirmed = True and resp = success_reply] r p show ?thesis
    using t [where confirmed = True and resp = refused_reply]
          t [where confirmed = True and resp = NetworkError]
          t [where confirmed = False and resp = refused_reply]
    by simp
qed

end
